theory Spec2Isabelle
  imports Complex_Main
begin

section \<open>Python values\<close>

text \<open>
  The quote engine is Python. Its numbers are modelled exactly: \<open>int\<close> for Python's
  unbounded integers and \<open>real\<close> for its floats, so rounding, overflow, infinities and
  NaN of IEEE arithmetic are outside the model. A string is a list of code points below
  256 (the Latin-1 range, which holds the Portuguese text of the program); a dictionary
  read with \<open>.get(key, default)\<close> is a record whose fields are options, \<open>None\<close>
  standing for an absent key; a dictionary used as an index is an association list in
  insertion order. The only exception a well-typed input can raise in the calculator is
  a division by zero.
\<close>

datatype py_error = ZeroDivisionError

definition py_div :: "real \<Rightarrow> real \<Rightarrow> py_error + real" where
  \<comment> \<open>\<open>a / b\<close> on floats\<close>
  "py_div a b = (if b = 0 then Inl ZeroDivisionError else Inr (a / b))"

definition py_int :: "real \<Rightarrow> int" where
  \<comment> \<open>\<open>int(x)\<close> truncates towards zero\<close>
  "py_int x = (if 0 \<le> x then \<lfloor>x\<rfloor> else \<lceil>x\<rceil>)"

definition get_default :: "'a option \<Rightarrow> 'a \<Rightarrow> 'a" where
  \<comment> \<open>\<open>d.get(key, default)\<close>\<close>
  "get_default v d = (case v of None \<Rightarrow> d | Some x \<Rightarrow> x)"

definition or_real :: "real \<Rightarrow> real \<Rightarrow> real" where
  \<comment> \<open>\<open>a or b\<close> on numbers: zero is falsy\<close>
  "or_real a b = (if a \<noteq> 0 then a else b)"

definition or_str :: "string \<Rightarrow> string \<Rightarrow> string" where
  \<comment> \<open>\<open>a or b\<close> on strings: the empty string is falsy\<close>
  "or_str a b = (if a \<noteq> [] then a else b)"

definition truthy_str :: "string option \<Rightarrow> bool" where
  "truthy_str v = (case v of None \<Rightarrow> False | Some s \<Rightarrow> s \<noteq> [])"

definition truthy_real :: "real option \<Rightarrow> bool" where
  "truthy_real v = (case v of None \<Rightarrow> False | Some x \<Rightarrow> x \<noteq> 0)"

subsection \<open>Strings\<close>

definition ord :: "char \<Rightarrow> int" where
  \<comment> \<open>the code point of a character\<close>
  "ord c = of_char c"

definition py_isspace :: "char \<Rightarrow> bool" where
  \<comment> \<open>the code points below 256 that \<open>str.strip\<close> removes and \<open>\s\<close> matches\<close>
  "py_isspace c = (let n = ord c
     in (9 \<le> n \<and> n \<le> 13) \<or> (28 \<le> n \<and> n \<le> 32) \<or> n = 133 \<or> n = 160)"

definition py_isdigit :: "char \<Rightarrow> bool" where
  \<comment> \<open>\<open>\d\<close>: the decimal digits below 256\<close>
  "py_isdigit c = (let n = ord c in 48 \<le> n \<and> n \<le> 57)"

definition minus32 :: "char \<Rightarrow> char" where
  \<comment> \<open>the character 32 code points below, for a character whose bit of weight 32 is set\<close>
  "minus32 c = (case c of Char b0 b1 b2 b3 b4 b5 b6 b7 \<Rightarrow> Char b0 b1 b2 b3 b4 False b6 b7)"

definition plus32 :: "char \<Rightarrow> char" where
  \<comment> \<open>the character 32 code points above, for a character whose bit of weight 32 is clear\<close>
  "plus32 c = (case c of Char b0 b1 b2 b3 b4 b5 b6 b7 \<Rightarrow> Char b0 b1 b2 b3 b4 True b6 b7)"

definition upper_char :: "char \<Rightarrow> string" where
  \<comment> \<open>\<open>str.upper\<close> on one code point; the sharp s becomes two letters. The micro sign
      and the y with diaeresis have their capitals beyond Latin-1, where nothing in the
      program's patterns or keys can match them: they are left as they are.\<close>
  "upper_char c = (let n = ord c
     in if 97 \<le> n \<and> n \<le> 122 then [minus32 c]
        else if n = 223 then ''SS''
        else if 224 \<le> n \<and> n \<le> 254 \<and> n \<noteq> 247 then [minus32 c]
        else [c])"

definition lower_char :: "char \<Rightarrow> char" where
  \<comment> \<open>\<open>str.lower\<close> on one code point\<close>
  "lower_char c = (let n = ord c
     in if 65 \<le> n \<and> n \<le> 90 then plus32 c
        else if 192 \<le> n \<and> n \<le> 222 \<and> n \<noteq> 215 then plus32 c
        else c)"

definition py_upper :: "string \<Rightarrow> string" where
  "py_upper s = concat (map upper_char s)"

definition py_lower :: "string \<Rightarrow> string" where
  "py_lower s = map lower_char s"

definition py_strip :: "string \<Rightarrow> string" where
  "py_strip s = rev (dropWhile py_isspace (rev (dropWhile py_isspace s)))"

fun startswith :: "string \<Rightarrow> string \<Rightarrow> bool" where
  \<comment> \<open>\<open>startswith s t\<close>: \<open>t\<close> is a prefix of \<open>s\<close>\<close>
  "startswith s [] = True"
| "startswith [] (c # t) = False"
| "startswith (d # s) (c # t) = (d = c \<and> startswith s t)"

fun py_in :: "string \<Rightarrow> string \<Rightarrow> bool" where
  \<comment> \<open>\<open>t in s\<close> on strings: \<open>t\<close> occurs in \<open>s\<close>\<close>
  "py_in t [] = (t = [])"
| "py_in t (c # s) = (startswith (c # s) t \<or> py_in t s)"

fun py_replace_char :: "char \<Rightarrow> char \<Rightarrow> string \<Rightarrow> string" where
  \<comment> \<open>\<open>s.replace(a, b)\<close> for single characters\<close>
  "py_replace_char a b [] = []"
| "py_replace_char a b (c # s) = (if c = a then b else c) # py_replace_char a b s"

fun collapse_spaces :: "string \<Rightarrow> string" where
  \<comment> \<open>\<open>re.sub(r'\s+', ' ', s)\<close>: every run of white space becomes one blank\<close>
  "collapse_spaces [] = []"
| "collapse_spaces [c] = (if py_isspace c then '' '' else [c])"
| "collapse_spaces (c # d # s) =
     (if py_isspace c then (if py_isspace d then collapse_spaces (d # s)
                            else CHR '' '' # collapse_spaces (d # s))
      else c # collapse_spaces (d # s))"

subsection \<open>Dictionaries in insertion order\<close>

fun dict_get :: "('k \<times> 'v) list \<Rightarrow> 'k \<Rightarrow> 'v option" where
  "dict_get [] k = None"
| "dict_get ((k', v) # d) k = (if k' = k then Some v else dict_get d k)"

fun dict_set :: "('k \<times> 'v) list \<Rightarrow> 'k \<Rightarrow> 'v \<Rightarrow> ('k \<times> 'v) list" where
  \<comment> \<open>\<open>d[k] = v\<close>: a key already present keeps its place\<close>
  "dict_set [] k v = [(k, v)]"
| "dict_set ((k', v') # d) k v = (if k' = k then (k, v) # d else (k', v') # dict_set d k v)"

subsection \<open>The regular expressions of the program\<close>

text \<open>
  Every pattern of the calculator is a sequence of character classes, each taken once,
  optionally, or repeated (\<open>*\<close>, \<open>+\<close>). \<open>match_items\<close> is the backtracking matcher
  of \<open>re\<close> on such a sequence, anchored at the start of the text: a repetition takes as
  many characters as it can and gives them back one by one. It returns the length of the
  match.
\<close>

datatype quant = One | Opt | Star | Plus

type_synonym rx = "((char \<Rightarrow> bool) \<times> quant) list"

fun match_items :: "rx \<Rightarrow> string \<Rightarrow> nat option" where
  "match_items [] s = Some 0"
| "match_items ((p, One) # r) [] = None"
| "match_items ((p, One) # r) (c # s) =
     (if p c then map_option Suc (match_items r s) else None)"
| "match_items ((p, Opt) # r) [] = match_items r []"
| "match_items ((p, Opt) # r) (c # s) =
     (if p c then (case match_items r s of Some n \<Rightarrow> Some (Suc n)
                   | None \<Rightarrow> match_items r (c # s))
      else match_items r (c # s))"
| "match_items ((p, Star) # r) [] = match_items r []"
| "match_items ((p, Star) # r) (c # s) =
     (if p c then (case match_items ((p, Star) # r) s of Some n \<Rightarrow> Some (Suc n)
                   | None \<Rightarrow> match_items r (c # s))
      else match_items r (c # s))"
| "match_items ((p, Plus) # r) [] = None"
| "match_items ((p, Plus) # r) (c # s) =
     (if p c then map_option Suc (match_items ((p, Star) # r) s) else None)"

fun re_search :: "rx \<Rightarrow> string \<Rightarrow> string option" where
  \<comment> \<open>\<open>re.search(pattern, s)\<close>: the leftmost match, as the matched text\<close>
  "re_search r [] = map_option (\<lambda>n. []) (match_items r [])"
| "re_search r (c # s) =
     (case match_items r (c # s) of Some n \<Rightarrow> Some (take n (c # s))
      | None \<Rightarrow> re_search r s)"

definition lit :: "string \<Rightarrow> rx" where
  "lit s = map (\<lambda>c. ((\<lambda>d. d = c), One)) s"

definition cls :: "string \<Rightarrow> char \<Rightarrow> bool" where
  \<comment> \<open>a bracketed class of literal characters\<close>
  "cls s c = (c \<in> set s)"

section \<open>The cost database (cost_database.py)\<close>

record SteelProfile =
  code :: string
  designation :: string
  weight_per_meter :: real
  area_per_meter :: real
  price_material :: real
  price_fabrication :: real
  price_assembly :: real
  price_painting :: real
  price_lifting :: real
  price_consumables :: real
  price_transport :: real
  is_galvanized :: bool

record CostData =
  cd_designation :: string
  cd_length_m :: real
  cd_weight_kg :: real
  cd_area_m2 :: real
  cost_material :: real
  cost_fabrication :: real
  cost_assembly :: real
  cost_painting :: real
  cost_lifting :: real
  cost_consumables :: real
  cost_transport :: real
  cd_total_cost :: real

definition calculate_cost :: "SteelProfile \<Rightarrow> real \<Rightarrow> CostData" where
  "calculate_cost self length_meters =
    (let weight_kg = length_meters * weight_per_meter self;
         area_m2 = length_meters * area_per_meter self;
         c_material = weight_kg * price_material self;
         c_fabrication = weight_kg * price_fabrication self;
         c_assembly = weight_kg * price_assembly self;
         c_lifting = weight_kg * price_lifting self;
         c_consumables = weight_kg * price_consumables self;
         c_transport = weight_kg * price_transport self;
         c_painting = area_m2 * price_painting self;
         total = c_material + c_fabrication + c_assembly + c_painting
                 + c_lifting + c_consumables + c_transport
     in \<lparr>cd_designation = designation self, cd_length_m = length_meters,
         cd_weight_kg = weight_kg, cd_area_m2 = area_m2,
         cost_material = c_material, cost_fabrication = c_fabrication,
         cost_assembly = c_assembly, cost_painting = c_painting,
         cost_lifting = c_lifting, cost_consumables = c_consumables,
         cost_transport = c_transport, cd_total_cost = total\<rparr>)"

definition normalize_profile_name :: "string \<Rightarrow> string" where
  \<comment> \<open>upper case, stripped, runs of white space collapsed, \<open>*\<close> and the
      multiplication sign (code point 215) written \<open>X\<close>\<close>
  "normalize_profile_name name =
     py_replace_char (CHR 0xD7) CHR ''X''
       (py_replace_char CHR ''*'' CHR ''X'' (collapse_spaces (py_strip (py_upper name))))"

type_synonym profile_row =
  "string \<times> string \<times> real \<times> real \<times> real \<times> real \<times> real \<times> real \<times> real \<times> real \<times> real"

definition profiles_data :: "profile_row list" where
  "profiles_data = [
  (''0480040011'', ''IPE 300'', 42.2, 1.16, 0.85, 0.25, 0.2, 13, 0.05, 0.04, 0.03),
  (''0480040009'', ''IPE 240'', 30.7, 0.922, 0.85, 0.25, 0.2, 13, 0.05, 0.04, 0.03),
  (''0480040015'', ''IPE 450'', 77.6, 1.61, 0.9, 0.25, 0.2, 13, 0.05, 0.04, 0.03),
  (''0480040008'', ''IPE 220'', 26.2, 0.848, 0.85, 0.25, 0.2, 13, 0.05, 0.04, 0.03),
  (''0480040010'', ''IPE 270'', 30.7, 0.92, 0.85, 0.25, 0.2, 13, 0.05, 0.04, 0.03),
  (''0480040004'', ''IPE 140'', 12.9, 0.551, 0.85, 0.25, 0.2, 13, 0.05, 0.04, 0.03),
  (''0480040003'', ''IPE 120'', 10.4, 0.475, 0.85, 0.25, 0.2, 13, 0.05, 0.04, 0.03),
  (''0480040005'', ''IPE 160'', 15.8, 0.623, 0.85, 0.25, 0.2, 13, 0.05, 0.04, 0.03),
  (''0480040006'', ''IPE 180'', 18.8, 0.699, 0.85, 0.25, 0.2, 13, 0.05, 0.04, 0.03),
  (''0480040007'', ''IPE 200'', 22.4, 0.773, 0.85, 0.25, 0.2, 13, 0.05, 0.04, 0.03),
  (''0480040012'', ''IPE 330'', 49.1, 1.252, 0.85, 0.25, 0.2, 13, 0.05, 0.04, 0.03),
  (''0480040013'', ''IPE 360'', 57.1, 1.356, 0.85, 0.25, 0.2, 13, 0.05, 0.04, 0.03),
  (''0480040014'', ''IPE 400'', 66.3, 1.467, 0.9, 0.25, 0.2, 13, 0.05, 0.04, 0.03),
  (''0480040016'', ''IPE 500'', 90.7, 1.782, 0.9, 0.25, 0.2, 13, 0.05, 0.04, 0.03),
  (''0480040017'', ''IPE 550'', 106.0, 1.944, 0.9, 0.25, 0.2, 13, 0.05, 0.04, 0.03),
  (''0480040018'', ''IPE 600'', 122.0, 2.106, 0.9, 0.25, 0.2, 13, 0.05, 0.04, 0.03),
  (''0480030010'', ''HEB 100'', 20.4, 0.567, 0.85, 0.25, 0.2, 13, 0.05, 0.04, 0.03),
  (''0480030011'', ''HEB 120'', 26.7, 0.686, 0.85, 0.25, 0.2, 13, 0.05, 0.04, 0.03),
  (''0480030012'', ''HEB 140'', 33.7, 0.805, 0.85, 0.25, 0.2, 13, 0.05, 0.04, 0.03),
  (''0480030013'', ''HEB 160'', 42.6, 0.924, 0.85, 0.25, 0.2, 13, 0.05, 0.04, 0.03),
  (''0480030014'', ''HEB 180'', 51.2, 1.043, 0.85, 0.25, 0.2, 13, 0.05, 0.04, 0.03),
  (''0480030015'', ''HEB 200'', 61.3, 1.162, 0.85, 0.25, 0.2, 13, 0.05, 0.04, 0.03),
  (''0480030016'', ''HEB 220'', 71.5, 1.294, 0.85, 0.25, 0.2, 13, 0.05, 0.04, 0.03),
  (''0480030017'', ''HEB 240'', 83.2, 1.426, 0.85, 0.25, 0.2, 13, 0.05, 0.04, 0.03),
  (''0480030018'', ''HEB 260'', 93.0, 1.545, 0.85, 0.25, 0.2, 13, 0.05, 0.04, 0.03),
  (''0480030019'', ''HEB 280'', 103.0, 1.664, 0.85, 0.25, 0.2, 13, 0.05, 0.04, 0.03),
  (''0480030020'', ''HEB 300'', 117.0, 1.783, 0.85, 0.25, 0.2, 13, 0.05, 0.04, 0.03),
  (''0480030021'', ''HEB 320'', 127.0, 1.889, 0.9, 0.25, 0.2, 13, 0.05, 0.04, 0.03),
  (''0480030022'', ''HEB 340'', 134.0, 1.969, 0.9, 0.25, 0.2, 13, 0.05, 0.04, 0.03),
  (''0480030023'', ''HEB 360'', 142.0, 2.049, 0.9, 0.25, 0.2, 13, 0.05, 0.04, 0.03),
  (''0480030024'', ''HEB 400'', 155.0, 2.196, 0.9, 0.25, 0.2, 13, 0.05, 0.04, 0.03),
  (''0480030025'', ''HEB 450'', 171.0, 2.396, 0.9, 0.25, 0.2, 13, 0.05, 0.04, 0.03),
  (''0480030026'', ''HEB 500'', 187.0, 2.596, 0.9, 0.25, 0.2, 13, 0.05, 0.04, 0.03),
  (''0480020010'', ''HEA 100'', 16.7, 0.560, 0.85, 0.25, 0.2, 13, 0.05, 0.04, 0.03),
  (''0480020011'', ''HEA 120'', 19.9, 0.666, 0.85, 0.25, 0.2, 13, 0.05, 0.04, 0.03),
  (''0480020012'', ''HEA 140'', 24.7, 0.772, 0.85, 0.25, 0.2, 13, 0.05, 0.04, 0.03),
  (''0480020013'', ''HEA 160'', 30.4, 0.878, 0.85, 0.25, 0.2, 13, 0.05, 0.04, 0.03),
  (''0480020014'', ''HEA 180'', 35.5, 0.984, 0.85, 0.25, 0.2, 13, 0.05, 0.04, 0.03),
  (''0480020015'', ''HEA 200'', 42.3, 1.090, 0.85, 0.25, 0.2, 13, 0.05, 0.04, 0.03),
  (''0480020016'', ''HEA 220'', 50.5, 1.209, 0.85, 0.25, 0.2, 13, 0.05, 0.04, 0.03),
  (''0480020017'', ''HEA 240'', 60.3, 1.328, 0.85, 0.25, 0.2, 13, 0.05, 0.04, 0.03),
  (''0480020018'', ''HEA 260'', 68.2, 1.447, 0.85, 0.25, 0.2, 13, 0.05, 0.04, 0.03),
  (''0480020019'', ''HEA 280'', 76.4, 1.566, 0.85, 0.25, 0.2, 13, 0.05, 0.04, 0.03),
  (''0480020020'', ''HEA 300'', 88.3, 1.685, 0.85, 0.25, 0.2, 13, 0.05, 0.04, 0.03),
  (''0480050005'', ''UPN 80'', 8.64, 0.362, 0.85, 0.25, 0.2, 13, 0.05, 0.04, 0.03),
  (''0480050006'', ''UPN 100'', 10.6, 0.424, 0.85, 0.25, 0.2, 13, 0.05, 0.04, 0.03),
  (''0480050007'', ''UPN 120'', 13.4, 0.494, 0.85, 0.25, 0.2, 13, 0.05, 0.04, 0.03),
  (''0480050008'', ''UPN 140'', 16.0, 0.564, 0.85, 0.25, 0.2, 13, 0.05, 0.04, 0.03),
  (''0480050009'', ''UPN 160'', 18.8, 0.634, 0.85, 0.25, 0.2, 13, 0.05, 0.04, 0.03),
  (''0480050010'', ''UPN 180'', 22.0, 0.710, 0.85, 0.25, 0.2, 13, 0.05, 0.04, 0.03),
  (''0480050011'', ''UPN 200'', 25.3, 0.786, 0.85, 0.25, 0.2, 13, 0.05, 0.04, 0.03),
  (''0480050012'', ''UPN 220'', 29.4, 0.862, 0.85, 0.25, 0.2, 13, 0.05, 0.04, 0.03),
  (''0480050013'', ''UPN 240'', 33.2, 0.938, 0.85, 0.25, 0.2, 13, 0.05, 0.04, 0.03),
  (''0480050014'', ''UPN 260'', 37.9, 1.014, 0.85, 0.25, 0.2, 13, 0.05, 0.04, 0.03),
  (''0480050015'', ''UPN 280'', 41.8, 1.090, 0.85, 0.25, 0.2, 13, 0.05, 0.04, 0.03),
  (''0480050016'', ''UPN 300'', 46.2, 1.166, 0.85, 0.25, 0.2, 13, 0.05, 0.04, 0.03),
  (''0550010060'', ''TUBO RED. 88.9*3.2'', 6.76, 0.28, 1.25, 0.25, 0.2, 13, 0.05, 0.04, 0.03),
  (''0550010050'', ''TUBO RED. 60.3*3.2'', 4.51, 0.19, 1.25, 0.25, 0.2, 13, 0.05, 0.04, 0.03),
  (''0550010070'', ''TUBO RED. 114.3*3.6'', 9.83, 0.36, 1.25, 0.25, 0.2, 13, 0.05, 0.04, 0.03),
  (''0550010080'', ''TUBO RED. 139.7*4.0'', 13.4, 0.44, 1.25, 0.25, 0.2, 13, 0.05, 0.04, 0.03),
  (''0550010090'', ''TUBO RED. 168.3*4.5'', 18.2, 0.53, 1.25, 0.25, 0.2, 13, 0.05, 0.04, 0.03),
  (''0550020040'', ''RHS 100x50x3'', 6.71, 0.30, 1.25, 0.25, 0.2, 13, 0.05, 0.04, 0.03),
  (''0550020050'', ''RHS 100x50x4'', 8.59, 0.30, 1.25, 0.25, 0.2, 13, 0.05, 0.04, 0.03),
  (''0550020060'', ''RHS 120x60x4'', 10.7, 0.36, 1.25, 0.25, 0.2, 13, 0.05, 0.04, 0.03),
  (''0550020070'', ''RHS 150x100x5'', 18.6, 0.50, 1.25, 0.25, 0.2, 13, 0.05, 0.04, 0.03),
  (''0550020080'', ''RHS 200x100x5'', 23.2, 0.60, 1.25, 0.25, 0.2, 13, 0.05, 0.04, 0.03),
  (''0550020090'', ''RHS 200x100x6'', 27.4, 0.60, 1.25, 0.25, 0.2, 13, 0.05, 0.04, 0.03),
  (''0550020100'', ''RHS 250x150x6'', 36.6, 0.80, 1.25, 0.25, 0.2, 13, 0.05, 0.04, 0.03),
  (''0550020110'', ''RHS 300x200x8'', 60.5, 1.00, 1.25, 0.25, 0.2, 13, 0.05, 0.04, 0.03),
  (''0550030040'', ''SHS 60x60x3'', 5.29, 0.24, 1.25, 0.25, 0.2, 13, 0.05, 0.04, 0.03),
  (''0550030050'', ''SHS 80x80x4'', 9.22, 0.32, 1.25, 0.25, 0.2, 13, 0.05, 0.04, 0.03),
  (''0550030060'', ''SHS 100x100x4'', 11.7, 0.40, 1.25, 0.25, 0.2, 13, 0.05, 0.04, 0.03),
  (''0550030070'', ''SHS 100x100x5'', 14.4, 0.40, 1.25, 0.25, 0.2, 13, 0.05, 0.04, 0.03),
  (''0550030080'', ''SHS 120x120x5'', 17.5, 0.48, 1.25, 0.25, 0.2, 13, 0.05, 0.04, 0.03),
  (''0550030090'', ''SHS 150x150x6'', 26.4, 0.60, 1.25, 0.25, 0.2, 13, 0.05, 0.04, 0.03),
  (''0550030100'', ''SHS 200x200x8'', 47.7, 0.80, 1.25, 0.25, 0.2, 13, 0.05, 0.04, 0.03),
  (''0410010013'', ''MADRE Z 170*56*15 ESP. 1.5MM'', 3.54, 0.604, 1.15, 0, 0.2, 0, 0.05, 0.04, 0.03),
  (''0410010005'', ''MADRE C 170*56*15 ESP. 1.5MM'', 3.54, 0.604, 1.15, 0, 0.2, 0, 0.05, 0.04, 0.03),
  (''0410010015'', ''MADRE C 220*68*18 ESP. 2MM'', 5.85, 0.75, 1.15, 0, 0.2, 0, 0.05, 0.04, 0.03),
  (''0410010016'', ''MADRE Z 200*60*15 ESP. 2MM'', 5.10, 0.68, 1.15, 0, 0.2, 0, 0.05, 0.04, 0.03),
  (''0410010017'', ''MADRE Z 250*70*20 ESP. 2.5MM'', 7.85, 0.82, 1.15, 0, 0.2, 0, 0.05, 0.04, 0.03),
  (''0410020001'', ''OMEGA 50'', 2.27, 0.388, 1.2, 0, 0.2, 0, 0.05, 0.04, 0.03),
  (''0410020002'', ''OMEGA 80'', 3.15, 0.45, 1.2, 0, 0.2, 0, 0.05, 0.04, 0.03),
  (''0240120008'', ''CHAPA PRETA 8MM'', 62.8, 1.0, 1.8, 0.25, 0.2, 13, 0.05, 0.04, 0.03),
  (''0240120010'', ''CHAPA PRETA 10MM'', 78.5, 1.0, 1.8, 0.25, 0.2, 13, 0.05, 0.04, 0.03),
  (''0240120012'', ''CHAPA PRETA 12MM'', 94.2, 1.0, 1.8, 0.25, 0.2, 13, 0.05, 0.04, 0.03),
  (''0240120013'', ''CHAPA PRETA 15MM'', 120.0, 2.0, 1.8, 0.25, 0.2, 13, 0.05, 0.04, 0.03),
  (''0240120020'', ''CHAPA PRETA 20MM'', 157.0, 2.0, 1.8, 0.25, 0.2, 13, 0.05, 0.04, 0.03),
  (''0240120025'', ''CHAPA PRETA 25MM'', 196.0, 2.0, 1.8, 0.25, 0.2, 13, 0.05, 0.04, 0.03)
  ]"

definition make_profile :: "profile_row \<Rightarrow> SteelProfile" where
  "make_profile row = (case row of
     (cod, des, kg_ml, m2_ml, pr_unit, fabrico, montagem, pintura, m_elev, consum, transpt) \<Rightarrow>
       \<lparr>code = cod, designation = des, weight_per_meter = kg_ml, area_per_meter = m2_ml,
        price_material = pr_unit, price_fabrication = fabrico, price_assembly = montagem,
        price_painting = pintura, price_lifting = m_elev, price_consumables = consum,
        price_transport = transpt,
        is_galvanized = (py_in ''GALVANIZADA'' (py_upper des) \<or> py_in ''MADRE'' (py_upper des))\<rparr>)"

fun init_steel_profiles :: "(string \<times> SteelProfile) list \<Rightarrow> profile_row list
    \<Rightarrow> (string \<times> SteelProfile) list" where
  \<comment> \<open>the loop of \<open>_init_steel_profiles\<close>: each profile is indexed by its normalised
      designation and by its code\<close>
  "init_steel_profiles d [] = d"
| "init_steel_profiles d (row # rows) =
     (let profile = make_profile row
      in init_steel_profiles
           (dict_set (dict_set d (normalize_profile_name (designation profile)) profile)
                     (code profile) profile) rows)"

definition steel_profiles :: "(string \<times> SteelProfile) list" where
  \<comment> \<open>\<open>cost_db.steel_profiles\<close>, the module's global instance\<close>
  "steel_profiles = init_steel_profiles [] profiles_data"

fun find_partial :: "string \<Rightarrow> (string \<times> SteelProfile) list \<Rightarrow> SteelProfile option" where
  "find_partial normalized [] = None"
| "find_partial normalized ((key, profile) # d) =
     (if py_in normalized key \<or> py_in key normalized then Some profile
      else find_partial normalized d)"

definition profile_types :: "string list" where
  "profile_types = [''IPE'', ''HEB'', ''HEA'', ''UPN'', ''RHS'', ''SHS'']"

definition match_type_size :: "string \<Rightarrow> (string \<times> string) option" where
  \<comment> \<open>\<open>re.match(r'(IPE|HEB|HEA|UPN|RHS|SHS)[\s]?(\d+)', s)\<close>: the two groups\<close>
  "match_type_size s =
     (case filter (startswith s) profile_types of
        [] \<Rightarrow> None
      | t # _ \<Rightarrow>
          (let rest = drop (length t) s;
               rest1 = (case rest of [] \<Rightarrow> [] | c # cs \<Rightarrow> if py_isspace c then cs else rest);
               digits = takeWhile py_isdigit rest1
           in if digits = [] then None else Some (t, digits)))"

definition find_profile_in :: "(string \<times> SteelProfile) list \<Rightarrow> string \<Rightarrow> SteelProfile option" where
  \<comment> \<open>\<open>CostDatabase.find_profile\<close> on a given index\<close>
  "find_profile_in d search_term =
     (let normalized = normalize_profile_name search_term
      in case dict_get d normalized of
           Some profile \<Rightarrow> Some profile
         | None \<Rightarrow>
            (case find_partial normalized d of
               Some profile \<Rightarrow> Some profile
             | None \<Rightarrow>
                (case match_type_size normalized of
                   None \<Rightarrow> None
                 | Some (profile_type, sz) \<Rightarrow> dict_get d (profile_type @ '' '' @ sz))))"

definition find_profile :: "string \<Rightarrow> SteelProfile option" where
  \<comment> \<open>\<open>cost_db.find_profile\<close>\<close>
  "find_profile search_term = find_profile_in steel_profiles search_term"

section \<open>The budget calculator (budget_calculator.py)\<close>

subsection \<open>Pricing parameters, budget lines, summary\<close>

record PricingParameters =
  lme_price_usd_kg :: real
  lme_hedging_buffer_pct :: real
  billet_premium_usd_kg :: real
  alloy_6063_premium_pct :: real
  alloy_6060_premium_pct :: real
  alloy_6082_premium_pct :: real
  anodizing_natural_eur_m2 :: real
  anodizing_colored_eur_m2 :: real
  powder_coating_standard_eur_m2 :: real
  powder_coating_qualicoat_eur_m2 :: real
  powder_coating_seaside_eur_m2 :: real
  labor_rate_eur_hr :: real
  cutting_time_mins :: real
  machining_time_per_hole_mins :: real
  assembly_time_per_component_mins :: real
  base_waste_factor_pct :: real
  complexity_waste_factor_pct :: real
  overhead_factor_pct :: real
  profit_margin_pct :: real
  eur_to_usd :: real

definition default_parameters :: PricingParameters where
  \<comment> \<open>\<open>PricingParameters()\<close>\<close>
  "default_parameters =
    \<lparr>lme_price_usd_kg = 2.35, lme_hedging_buffer_pct = 5.0, billet_premium_usd_kg = 0.45,
     alloy_6063_premium_pct = 0.0, alloy_6060_premium_pct = 2.0, alloy_6082_premium_pct = 8.0,
     anodizing_natural_eur_m2 = 12.0, anodizing_colored_eur_m2 = 18.0,
     powder_coating_standard_eur_m2 = 15.0, powder_coating_qualicoat_eur_m2 = 22.0,
     powder_coating_seaside_eur_m2 = 35.0, labor_rate_eur_hr = 35.0, cutting_time_mins = 2.0,
     machining_time_per_hole_mins = 5.0, assembly_time_per_component_mins = 8.0,
     base_waste_factor_pct = 8.0, complexity_waste_factor_pct = 4.0,
     overhead_factor_pct = 15.0, profit_margin_pct = 20.0, eur_to_usd = 1.08\<rparr>"

record BudgetLineItem =
  line_id :: nat
  reference :: string
  description :: string
  quantity :: int
  quantity_source :: string
  specs_source :: string
  profile_id :: "string option"
  perimeter_mm :: real
  area_mm2 :: real
  length_mm :: real
  weight_kg :: real
  complexity_score :: real
  holes_count :: nat
  entity_type :: string
  material :: "string option"
  finish :: "string option"
  thickness_mm :: "real option"
  raw_material_cost :: real
  transformation_cost :: real
  surface_treatment_cost :: real
  labor_cost :: real
  accessories_cost :: real
  unit_cost :: real
  total_cost :: real
  correlation_confidence :: real
  correlation_method :: string
  line_notes :: string

record BudgetSummary =
  project_name :: string
  created_at :: string
  has_dxf :: bool
  has_pdf :: bool
  dxf_files_count :: nat
  pdf_files_count :: nat
  total_profiles :: nat
  total_quantity :: int
  total_weight_kg :: real
  total_length_mm :: real
  raw_material_total :: real
  transformation_total :: real
  surface_treatment_total :: real
  labor_total :: real
  accessories_total :: real
  waste_cost :: real
  overhead_cost :: real
  subtotal :: real
  profit_margin :: real
  total_quote :: real
  waste_percentage_applied :: real
  average_complexity :: real
  estimated_production_hours :: real

subsection \<open>Pricing one line from the cost database\<close>

definition HAS_COST_DB :: bool where
  \<comment> \<open>the import of \<open>cost_database\<close> succeeds: the module is part of the repository\<close>
  "HAS_COST_DB = True"

definition ALUMINUM_DENSITY_KG_M3 :: real where
  "ALUMINUM_DENSITY_KG_M3 = 2700"

definition digits_or_dot :: "char \<Rightarrow> bool" where
  "digits_or_dot c = (py_isdigit c \<or> c = CHR ''.'')"

definition dot_or_space :: "char \<Rightarrow> bool" where
  "dot_or_space c = (c = CHR ''.'' \<or> py_isspace c)"

definition profile_patterns :: "rx list" where
  "profile_patterns =
    [lit ''IPE'' @ [(py_isspace, Star), (py_isdigit, Plus)],
     lit ''HEB'' @ [(py_isspace, Star), (py_isdigit, Plus)],
     lit ''HEA'' @ [(py_isspace, Star), (py_isdigit, Plus)],
     lit ''UPN'' @ [(py_isspace, Star), (py_isdigit, Plus)],
     lit ''RHS'' @ [(py_isspace, Star), (py_isdigit, Plus), (cls ''xX'', One),
                    (py_isdigit, Plus), (cls ''xX'', One), (py_isdigit, Plus)],
     lit ''SHS'' @ [(py_isspace, Star), (py_isdigit, Plus), (cls ''xX'', One),
                    (py_isdigit, Plus), (cls ''xX'', One), (py_isdigit, Plus)],
     lit ''TUBO'' @ [(py_isspace, Plus)] @ lit ''RED'' @
       [(dot_or_space, Plus), (digits_or_dot, Plus), (cls ''*xX'', One), (digits_or_dot, Plus)],
     lit ''MADRE'' @ [(py_isspace, Plus), (cls ''CZ'', One), (py_isspace, Plus),
                      (py_isdigit, Plus)],
     lit ''OMEGA'' @ [(py_isspace, Star), (py_isdigit, Plus)],
     lit ''CHAPA'' @ [(py_isspace, Plus)] @ lit ''PRETA'' @
       [(py_isspace, Plus), (py_isdigit, Plus)] @ lit ''MM'']"

fun find_first :: "('a \<Rightarrow> 'b option) \<Rightarrow> 'a list \<Rightarrow> 'b option" where
  \<comment> \<open>a \<open>for\<close> loop left by \<open>break\<close> at the first hit\<close>
  "find_first f [] = None"
| "find_first f (x # xs) = (case f x of Some y \<Rightarrow> Some y | None \<Rightarrow> find_first f xs)"

definition match_term :: "string \<Rightarrow> string option" where
  \<comment> \<open>the inner loop: the first pattern found in the upper-cased term gives the name;
      an empty term is skipped. A match is never empty, so it always ends both loops.\<close>
  "match_term trm =
     (if trm = [] then None
      else find_first (\<lambda>pattern. re_search pattern (py_upper trm)) profile_patterns)"

definition extract_profile_name :: "BudgetLineItem \<Rightarrow> string option" where
  "extract_profile_name line =
     find_first match_term
       [description line, reference line, get_default (profile_id line) []]"

definition try_calculate_from_cost_db :: "BudgetLineItem \<Rightarrow> BudgetLineItem option" where
  \<comment> \<open>\<open>None\<close> is the source's \<open>False\<close>; \<open>Some\<close> carries the line as the source
      leaves it when it returns \<open>True\<close>\<close>
  "try_calculate_from_cost_db line =
     (if \<not> HAS_COST_DB then None
      else case extract_profile_name line of
        None \<Rightarrow> None
      | Some profile_name \<Rightarrow>
         (case find_profile profile_name of
            None \<Rightarrow> None
          | Some profile \<Rightarrow>
             (let length_m = (if length_mm line > 0 then length_mm line / 1000 else 1.0);
                  cost_data = calculate_cost profile length_m;
                  qty = real_of_int (max 1 (quantity line))
              in Some (line\<lparr>weight_kg := cd_weight_kg cost_data,
                    raw_material_cost := cost_material cost_data * qty,
                    transformation_cost := cost_fabrication cost_data * qty,
                    surface_treatment_cost := cost_painting cost_data * qty,
                    labor_cost := (cost_assembly cost_data + cost_lifting cost_data) * qty,
                    accessories_cost :=
                      (cost_consumables cost_data + cost_transport cost_data) * qty,
                    unit_cost := cd_total_cost cost_data,
                    total_cost := cd_total_cost cost_data * qty,
                    line_notes := ''Custos FLYSTEEL: '' @ designation profile\<rparr>))))"

subsection \<open>Pricing one line by formula\<close>

definition thickness_or_default :: "BudgetLineItem \<Rightarrow> real" where
  \<comment> \<open>\<open>line.thickness_mm or 2.0\<close>: an absent and a zero thickness both give 2\<close>
  "thickness_or_default line =
     (case thickness_mm line of None \<Rightarrow> 2.0 | Some t \<Rightarrow> or_real t 2.0)"

definition weight_if_not_provided :: "BudgetLineItem \<Rightarrow> BudgetLineItem" where
  \<comment> \<open>the \<open>if\<close>/\<open>elif\<close> chain of \<open>_calculate_line_costs\<close> that fills in a missing weight\<close>
  "weight_if_not_provided line =
     (if weight_kg line \<le> 0 \<and> area_mm2 line > 0 then
        (let thickness = thickness_or_default line;
             volume_mm3 = perimeter_mm line * thickness * max (length_mm line) 1000
         in line\<lparr>weight_kg := (volume_mm3 / 1000000000) * ALUMINUM_DENSITY_KG_M3\<rparr>)
      else if weight_kg line \<le> 0 \<and> perimeter_mm line > 0 then
        (let thickness = thickness_or_default line;
             volume_mm3 = perimeter_mm line * thickness * thickness
         in line\<lparr>weight_kg := (volume_mm3 / 1000000000) * ALUMINUM_DENSITY_KG_M3\<rparr>)
      else if weight_kg line \<le> 0 \<and> length_mm line > 0 then
        line\<lparr>weight_kg := (length_mm line / 1000) * 0.5,
             perimeter_mm := length_mm line * 0.1\<rparr>
      else if weight_kg line \<le> 0 then
        line\<lparr>weight_kg := 0.5, length_mm := 1000, perimeter_mm := 100\<rparr>
      else line)"

definition treatment_rate :: "PricingParameters \<Rightarrow> string \<Rightarrow> real" where
  \<comment> \<open>\<open>treatment_rates.get(surface_treatment, p.powder_coating_standard_eur_m2)\<close>\<close>
  "treatment_rate p surface_treatment =
     (if surface_treatment = ''anodizing_natural'' then anodizing_natural_eur_m2 p
      else if surface_treatment = ''anodizing_colored'' then anodizing_colored_eur_m2 p
      else if surface_treatment = ''powder_coating_standard'' then powder_coating_standard_eur_m2 p
      else if surface_treatment = ''powder_coating_qualicoat'' then powder_coating_qualicoat_eur_m2 p
      else if surface_treatment = ''powder_coating_seaside'' then powder_coating_seaside_eur_m2 p
      else if surface_treatment = ''none'' then 0.0
      else powder_coating_standard_eur_m2 p)"

definition formula_costs :: "PricingParameters \<Rightarrow> real \<Rightarrow> BudgetLineItem \<Rightarrow> string
    \<Rightarrow> BudgetLineItem" where
  \<comment> \<open>\<open>_calculate_line_costs\<close> from the weight on, \<open>material_price_kg\<close> being computed\<close>
  "formula_costs p material_price_kg line0 surface_treatment =
     (let line = weight_if_not_provided line0;
          q = real_of_int (quantity line);
          raw = weight_kg line * material_price_kg * q;
          extrusion_rate = 1.50 * complexity_score line;
          transformation = weight_kg line * extrusion_rate * q;
          surface_area_m2 = (perimeter_mm line * max (length_mm line) 1000) / 1000000;
          surface = surface_area_m2 * treatment_rate p surface_treatment * q;
          cutting_time = cutting_time_mins p;
          machining_time = real (holes_count line) * machining_time_per_hole_mins p;
          complexity_time = (complexity_score line - 1) * 5;
          assembly_time = assembly_time_per_component_mins p;
          total_labor_mins = (cutting_time + machining_time + complexity_time + assembly_time) * q;
          labor = (total_labor_mins / 60) * labor_rate_eur_hr p;
          accessories = raw * 0.08;
          unit = (raw + transformation + surface + labor + accessories)
                 / real_of_int (max (quantity line) 1)
      in line\<lparr>raw_material_cost := raw, transformation_cost := transformation,
              surface_treatment_cost := surface, labor_cost := labor,
              accessories_cost := accessories, unit_cost := unit, total_cost := unit * q\<rparr>)"

definition calculate_line_costs :: "PricingParameters \<Rightarrow> BudgetLineItem \<Rightarrow> string
    \<Rightarrow> py_error + BudgetLineItem" where
  \<comment> \<open>\<open>_calculate_line_costs\<close>: the catalogue first; otherwise the formulas, whose first
      step divides by the currency factor\<close>
  "calculate_line_costs p line surface_treatment =
     (case (if HAS_COST_DB then try_calculate_from_cost_db line else None) of
        Some priced \<Rightarrow> Inr priced
      | None \<Rightarrow>
         (let effective_lme = lme_price_usd_kg p * (1 + lme_hedging_buffer_pct p / 100)
          in case py_div (effective_lme + billet_premium_usd_kg p) (eur_to_usd p) of
               Inl e \<Rightarrow> Inl e
             | Inr material_price_kg \<Rightarrow>
                 Inr (formula_costs p material_price_kg line surface_treatment)))"

subsection \<open>The summary\<close>

definition calculate_summary :: "PricingParameters \<Rightarrow> BudgetLineItem list \<Rightarrow> string \<Rightarrow> string
    \<Rightarrow> bool \<Rightarrow> bool \<Rightarrow> py_error + BudgetSummary" where
  \<comment> \<open>\<open>_calculate_summary\<close>; \<open>now\<close> is the time stamp read from the clock\<close>
  "calculate_summary p items name now dxf pdf =
     (let raw = (\<Sum>item\<leftarrow>items. raw_material_cost item);
          transformation = (\<Sum>item\<leftarrow>items. transformation_cost item);
          surface = (\<Sum>item\<leftarrow>items. surface_treatment_cost item);
          labor = (\<Sum>item\<leftarrow>items. labor_cost item);
          accessories = (\<Sum>item\<leftarrow>items. accessories_cost item);
          avg = (if items \<noteq> []
                 then (\<Sum>item\<leftarrow>items. complexity_score item) / real (length items)
                 else 0.0);
          waste_pct = base_waste_factor_pct p + (avg - 1) * complexity_waste_factor_pct p;
          waste_applied = min waste_pct 20.0;
          waste = raw * (waste_applied / 100);
          direct_costs = raw + transformation + surface + labor + accessories + waste;
          overhead = direct_costs * (overhead_factor_pct p / 100);
          sub = direct_costs + overhead;
          margin = sub * (profit_margin_pct p / 100)
      in case py_div labor (labor_rate_eur_hr p) of
           Inl e \<Rightarrow> Inl e
         | Inr hours \<Rightarrow> Inr
            \<lparr>project_name = name, created_at = now, has_dxf = dxf, has_pdf = pdf,
             dxf_files_count = (if dxf then 1 else 0), pdf_files_count = (if pdf then 1 else 0),
             total_profiles = length items,
             total_quantity = (\<Sum>item\<leftarrow>items. quantity item),
             total_weight_kg = (\<Sum>item\<leftarrow>items. weight_kg item * real_of_int (quantity item)),
             total_length_mm = (\<Sum>item\<leftarrow>items. length_mm item * real_of_int (quantity item)),
             raw_material_total = raw, transformation_total = transformation,
             surface_treatment_total = surface, labor_total = labor,
             accessories_total = accessories, waste_cost = waste, overhead_cost = overhead,
             subtotal = sub, profit_margin = margin, total_quote = sub + margin,
             waste_percentage_applied = waste_applied, average_complexity = avg,
             estimated_production_hours = hours\<rparr>)"

subsection \<open>The extractors' dictionaries\<close>

text \<open>
  The two extractors hand over dictionaries. A record stands for one of them: a field is
  \<open>None\<close> when \<open>get\<close> finds no value under the key, and the field \<open>other_keys\<close> tells
  whether the dictionary has a key that the fields do not show, one that the calculator
  does not read or one that holds no value. The empty dictionary, which an \<open>if\<close> of Python
  takes for false, is the record with no key at all; every other dictionary is true.
\<close>

record Feature =
  feature_type :: "string option"

record BoundingBox =
  bb_width :: "real option"
  bb_height :: "real option"

record DxfProfile =
  p_profile_id :: "string option"
  p_layer :: "string option"
  p_entity_type :: "string option"
  p_quantity :: "real option"
  p_perimeter_mm :: "real option"
  p_area_mm2 :: "real option"
  p_length_mm :: "real option"
  p_bounding_box :: "BoundingBox option"
  p_weight_kg :: "real option"
  p_complexity_score :: "real option"
  p_features :: "Feature list option"
  p_material_hint :: "string option"
  p_other_keys :: bool

record MaterialQuantity =
  mq_source :: "string option"
  mq_profile_reference :: "string option"
  mq_description :: "string option"
  mq_quantity :: "real option"
  mq_unit_length_mm :: "real option"
  mq_unit_area_mm2 :: "real option"
  mq_other_keys :: bool

record BomItem =
  i_reference :: "string option"
  i_description :: "string option"
  i_quantity :: "real option"
  i_length_mm :: "real option"
  i_material :: "string option"
  i_finish :: "string option"
  i_thickness_mm :: "real option"
  i_notes :: "string option"
  i_other_keys :: bool

record Constraint =
  tc_constraint_type :: "string option"
  tc_value :: "string option"
  tc_context :: "string option"
  tc_importance :: "string option"

record DimensionSpec =
  d_raw :: "string option"
  d_dimensions :: "string option"

record DxfData =
  dxf_success :: "bool option"
  dxf_profiles :: "DxfProfile list"
  dxf_material_quantities :: "MaterialQuantity list"

record PdfData =
  pdf_success :: "bool option"
  pdf_bom_items :: "BomItem list"
  pdf_constraints :: "Constraint list"
  pdf_dimension_specs :: "DimensionSpec list"

definition empty_profile :: DxfProfile where
  \<comment> \<open>the profile dictionary \<open>{}\<close>\<close>
  "empty_profile = \<lparr>p_profile_id = None, p_layer = None, p_entity_type = None,
      p_quantity = None, p_perimeter_mm = None, p_area_mm2 = None, p_length_mm = None,
      p_bounding_box = None, p_weight_kg = None, p_complexity_score = None,
      p_features = None, p_material_hint = None, p_other_keys = False\<rparr>"

definition empty_material_quantity :: MaterialQuantity where
  \<comment> \<open>the material quantity dictionary \<open>{}\<close>\<close>
  "empty_material_quantity = \<lparr>mq_source = None, mq_profile_reference = None,
      mq_description = None, mq_quantity = None, mq_unit_length_mm = None,
      mq_unit_area_mm2 = None, mq_other_keys = False\<rparr>"

definition no_item :: BomItem where
  \<comment> \<open>the row dictionary \<open>{}\<close>\<close>
  "no_item = \<lparr>i_reference = None, i_description = None, i_quantity = None, i_length_mm = None,
      i_material = None, i_finish = None, i_thickness_mm = None, i_notes = None,
      i_other_keys = False\<rparr>"

definition truthy_dict :: "'a \<Rightarrow> 'a option \<Rightarrow> 'a option" where
  \<comment> \<open>the dictionary as an \<open>if\<close> reads it: \<open>None\<close> and the empty dictionary are
      false\<close>
  "truthy_dict blank d =
     (case d of None \<Rightarrow> None | Some x \<Rightarrow> if x = blank then None else Some x)"

subsection \<open>Correlations\<close>

record Specifications =
  sp_material :: "string option"
  sp_finish :: "string option"
  sp_thickness_mm :: "real option"
  sp_certifications :: "string option list"
  sp_constraints :: "(string \<times> string option \<times> string) list"

record Correlation =
  c_dxf_profile :: "DxfProfile option"
  c_material_quantity :: "MaterialQuantity option"
  c_pdf_item :: "BomItem option"
  c_correlation_confidence :: real
  c_correlation_method :: string
  c_quantity_source :: string
  c_specifications :: "Specifications option"

datatype log_entry =
    UsingDxfAsPrimary nat nat
  | UsingPdfAsFallback nat
  | CreatingFallbackItems

record PdfLookup =
  by_reference :: "(string \<times> BomItem) list"
  by_description :: "(string \<times> BomItem) list"
  all_items :: "BomItem list"

definition strip_separators :: "string \<Rightarrow> string" where
  \<comment> \<open>\<open>re.sub(r'[\-_\s]', '', ref)\<close>\<close>
  "strip_separators s = filter (\<lambda>c. \<not> (c = CHR ''-'' \<or> c = CHR ''_'' \<or> py_isspace c)) s"

fun build_pdf_lookup_loop :: "PdfLookup \<Rightarrow> BomItem list \<Rightarrow> PdfLookup" where
  "build_pdf_lookup_loop lookup [] = lookup"
| "build_pdf_lookup_loop lookup (item # items) =
     (let ref = py_strip (py_upper (get_default (i_reference item) []));
          desc = py_strip (py_lower (get_default (i_description item) []));
          lookup1 = (if ref \<noteq> []
                     then lookup\<lparr>by_reference :=
                            dict_set (dict_set (by_reference lookup) ref item)
                                     (strip_separators ref) item\<rparr>
                     else lookup);
          lookup2 = (if desc \<noteq> []
                     then lookup1\<lparr>by_description :=
                            dict_set (by_description lookup1) (take 30 desc) item\<rparr>
                     else lookup1)
      in build_pdf_lookup_loop lookup2 items)"

definition build_pdf_lookup :: "BomItem list \<Rightarrow> PdfLookup" where
  "build_pdf_lookup pdf_items =
     build_pdf_lookup_loop \<lparr>by_reference = [], by_description = [], all_items = pdf_items\<rparr>
       pdf_items"

fun index_constraints_loop :: "(string \<times> Constraint list) list \<Rightarrow> Constraint list
    \<Rightarrow> (string \<times> Constraint list) list" where
  "index_constraints_loop indexed [] = indexed"
| "index_constraints_loop indexed (c # cs) =
     (let ctype = get_default (tc_constraint_type c) ''other'';
          group = (case dict_get indexed ctype of None \<Rightarrow> [] | Some g \<Rightarrow> g)
      in index_constraints_loop (dict_set indexed ctype (group @ [c])) cs)"

definition index_constraints :: "Constraint list \<Rightarrow> (string \<times> Constraint list) list" where
  "index_constraints constraints = index_constraints_loop [] constraints"

definition first_value :: "(string \<times> Constraint list) list \<Rightarrow> string \<Rightarrow> string option option" where
  \<comment> \<open>\<open>constraints[key][0].get('value')\<close> when the key is there with a non-empty list\<close>
  "first_value constraints key =
     (case dict_get constraints key of
        None \<Rightarrow> None
      | Some [] \<Rightarrow> None
      | Some (c # _) \<Rightarrow> Some (tc_value c))"

definition extract_specifications :: "BomItem option \<Rightarrow> (string \<times> Constraint list) list
    \<Rightarrow> Specifications" where
  "extract_specifications pdf_item constraints =
     (let material0 = (case truthy_dict no_item pdf_item of
                         None \<Rightarrow> None | Some item \<Rightarrow> i_material item);
          finish0 = (case truthy_dict no_item pdf_item of
                       None \<Rightarrow> None | Some item \<Rightarrow> i_finish item);
          thickness0 = (case truthy_dict no_item pdf_item of
                          None \<Rightarrow> None | Some item \<Rightarrow> i_thickness_mm item);
          material1 = (case first_value constraints ''material_grade'' of
                         Some v \<Rightarrow> if \<not> truthy_str material0 then v else material0
                       | None \<Rightarrow> material0);
          finish1 = (case first_value constraints ''surface_treatment'' of
                       Some v \<Rightarrow> if \<not> truthy_str finish0 then v else finish0
                     | None \<Rightarrow> finish0);
          certifications = (case dict_get constraints ''certification'' of
                              None \<Rightarrow> [] | Some cs \<Rightarrow> map tc_value cs);
          high = concat (map (\<lambda>(ctype, clist).
                   map (\<lambda>c. (ctype, tc_value c, take 100 (get_default (tc_context c) [])))
                     (filter (\<lambda>c. tc_importance c = Some ''high'') clist)) constraints)
      in \<lparr>sp_material = material1, sp_finish = finish1, sp_thickness_mm = thickness0,
          sp_certifications = certifications, sp_constraints = high\<rparr>)"

definition correlate_profile_with_pdf :: "DxfProfile \<Rightarrow> PdfLookup
    \<Rightarrow> (string \<times> Constraint list) list \<Rightarrow> Correlation" where
  "correlate_profile_with_pdf profile pdf_lookup constraints =
     (let pid = get_default (p_profile_id profile) [];
          layer_upper = py_upper (get_default (p_layer profile) []);
          s1 = (case dict_get (by_reference pdf_lookup) layer_upper of
                  Some item \<Rightarrow> (Some item, 0.9, ''layer_to_reference'')
                | None \<Rightarrow> (None, 0.0, ''none''));
          s2 = (case truthy_dict no_item (fst s1) of
                  Some _ \<Rightarrow> s1
                | None \<Rightarrow>
                   (case find_first (\<lambda>(ref, item).
                            if py_in ref (py_upper pid) \<or> py_in (py_upper pid) ref
                            then Some item else None) (by_reference pdf_lookup) of
                      Some item \<Rightarrow> (Some item, 0.8, ''profile_id_match'')
                    | None \<Rightarrow> s1));
          s3 = (case truthy_dict no_item (fst s2) of
                  Some _ \<Rightarrow> s2
                | None \<Rightarrow>
                   (if truthy_str (p_material_hint profile) then
                      (let material_hint = py_lower (get_default (p_material_hint profile) [])
                       in case find_first (\<lambda>item.
                                 if py_in material_hint
                                      (py_lower (get_default (i_description item) []))
                                 then Some item else None) (all_items pdf_lookup) of
                            Some item \<Rightarrow> (Some item, 0.6, ''material_hint'')
                          | None \<Rightarrow> s2)
                    else s2))
      in case s3 of (matched_pdf, confidence, method) \<Rightarrow>
          \<lparr>c_dxf_profile = Some profile, c_material_quantity = None,
           c_pdf_item = matched_pdf, c_correlation_confidence = confidence,
           c_correlation_method = method, c_quantity_source = ''dxf'',
           c_specifications = Some (extract_specifications matched_pdf constraints)\<rparr>)"

definition create_material_correlation :: "MaterialQuantity \<Rightarrow> PdfLookup
    \<Rightarrow> (string \<times> Constraint list) list \<Rightarrow> Correlation" where
  "create_material_correlation material_qty pdf_lookup constraints =
     (let ref = get_default (mq_profile_reference material_qty) [];
          matched_pdf = dict_get (by_reference pdf_lookup) (py_upper ref)
      in \<lparr>c_dxf_profile = None, c_material_quantity = Some material_qty,
          c_pdf_item = matched_pdf,
          c_correlation_confidence =
            (if truthy_dict no_item matched_pdf \<noteq> None then 0.7 else 0.5),
          c_correlation_method = ''block_count'', c_quantity_source = ''dxf'',
          c_specifications = Some (extract_specifications matched_pdf constraints)\<rparr>)"

subsection \<open>Fallback correlations\<close>

fun str_of_nat :: "nat \<Rightarrow> string" where
  \<comment> \<open>\<open>str(n)\<close>\<close>
  "str_of_nat n =
     (if n < 10 then [''0123456789'' ! n]
      else str_of_nat (n div 10) @ [''0123456789'' ! (n mod 10)])"

declare str_of_nat.simps [simp del]

definition fmt_02d :: "nat \<Rightarrow> string" where
  \<comment> \<open>the format \<open>{n:02d}\<close>\<close>
  "fmt_02d n = (if n < 10 then CHR ''0'' # str_of_nat n else str_of_nat n)"

definition number_token :: "string \<Rightarrow> string \<times> string" where
  \<comment> \<open>on a text that starts with a digit: the match of \<open>\d+(?:[.,]\d+)?\<close> and what follows it\<close>
  "number_token s =
     (let ds = takeWhile py_isdigit s; rest = dropWhile py_isdigit s
      in case rest of
           [] \<Rightarrow> (ds, [])
         | sep # r \<Rightarrow>
             if (sep = CHR ''.'' \<or> sep = CHR '','') \<and> takeWhile py_isdigit r \<noteq> []
             then (ds @ sep # takeWhile py_isdigit r, dropWhile py_isdigit r)
             else (ds, rest))"

lemma number_token_shorter:
  "py_isdigit c \<Longrightarrow> length (snd (number_token (c # s))) < Suc (length s)"
proof -
  assume c: "py_isdigit c"
  have 1: "length (dropWhile py_isdigit s) \<le> length s"
    by (rule length_dropWhile_le)
  have 2: "\<And>x r. dropWhile py_isdigit s = x # r \<Longrightarrow> length (dropWhile py_isdigit r) < length s"
  proof -
    fix x r assume e: "dropWhile py_isdigit s = x # r"
    have "length (dropWhile py_isdigit r) \<le> length r" by (rule length_dropWhile_le)
    moreover have "length r < length (dropWhile py_isdigit s)" using e by simp
    ultimately show "length (dropWhile py_isdigit r) < length s" using 1 by linarith
  qed
  show ?thesis
    using c 1 2 by (auto simp: number_token_def Let_def split: list.splits)
qed

function findall_numbers :: "string \<Rightarrow> string list" where
  \<comment> \<open>\<open>re.findall(r'(\d+(?:[.,]\d+)?)', s)\<close>\<close>
  "findall_numbers [] = []"
| "findall_numbers (c # s) =
     (if py_isdigit c
      then fst (number_token (c # s)) # findall_numbers (snd (number_token (c # s)))
      else findall_numbers s)"
  by pat_completeness auto
termination
  by (relation "measure length") (auto simp: number_token_shorter)

definition digits_value :: "string \<Rightarrow> real" where
  "digits_value ds = foldl (\<lambda>a c. 10 * a + real_of_int (ord c - 48)) 0 ds"

definition py_float :: "string \<Rightarrow> real" where
  \<comment> \<open>\<open>float(n.replace(',', '.'))\<close> on a token of \<open>findall_numbers\<close>\<close>
  "py_float tok =
     (let ip = takeWhile py_isdigit tok; fp = drop (Suc (length ip)) tok
      in digits_value ip + digits_value fp / 10 ^ length fp)"

definition parse_dimension :: "string \<Rightarrow> real option" where
  "parse_dimension dim_str =
     (if dim_str = [] then None
      else case map py_float (findall_numbers dim_str) of
             [] \<Rightarrow> None
           | v # vs \<Rightarrow> Some (foldl max v vs))"

definition no_specifications :: Specifications where
  \<comment> \<open>a \<open>specifications\<close> dictionary without keys\<close>
  "no_specifications = \<lparr>sp_material = None, sp_finish = None, sp_thickness_mm = None,
      sp_certifications = [], sp_constraints = []\<rparr>"

definition material_item :: "nat \<Rightarrow> Constraint \<Rightarrow> Correlation" where
  "material_item i mat =
     \<lparr>c_dxf_profile = None, c_material_quantity = None,
      c_pdf_item = Some (no_item\<lparr>i_reference := Some (''MAT-'' @ fmt_02d (i + 1)),
          i_description := Some (''Material: '' @
              get_default (tc_value mat) (''Alum'' @ [CHR 0xED] @ ''nio'')),
          i_quantity := Some 1,
          i_notes := Some (take 100 (get_default (tc_context mat) []))\<rparr>),
      c_correlation_confidence = 0.3, c_correlation_method = ''constraint_extraction'',
      c_quantity_source = ''estimated'',
      c_specifications = Some (no_specifications\<lparr>sp_material := tc_value mat\<rparr>)\<rparr>"

definition treatment_item :: "nat \<Rightarrow> Constraint \<Rightarrow> Correlation" where
  "treatment_item i treat =
     \<lparr>c_dxf_profile = None, c_material_quantity = None,
      c_pdf_item = Some (no_item\<lparr>i_reference := Some (''TRAT-'' @ fmt_02d (i + 1)),
          i_description := Some (''Tratamento: '' @ get_default (tc_value treat) ''Lacagem''),
          i_quantity := Some 1,
          i_notes := Some (take 100 (get_default (tc_context treat) []))\<rparr>),
      c_correlation_confidence = 0.3, c_correlation_method = ''constraint_extraction'',
      c_quantity_source = ''estimated'',
      c_specifications = Some (no_specifications\<lparr>sp_finish := tc_value treat\<rparr>)\<rparr>"

definition dimension_item :: "nat \<Rightarrow> string \<Rightarrow> real \<Rightarrow> Correlation" where
  "dimension_item n dim_raw len =
     \<lparr>c_dxf_profile = None, c_material_quantity = None,
      c_pdf_item = Some (no_item\<lparr>i_reference := Some (''DIM-'' @ fmt_02d (n + 1)),
          i_description := Some (''Elemento '' @ dim_raw),
          i_quantity := Some 1, i_length_mm := Some len\<rparr>),
      c_correlation_confidence = 0.25, c_correlation_method = ''dimension_extraction'',
      c_quantity_source = ''estimated'', c_specifications = None\<rparr>"

fun dimension_items :: "string list \<Rightarrow> Correlation list \<Rightarrow> DimensionSpec list
    \<Rightarrow> Correlation list" where
  \<comment> \<open>the loop over the dimension strings; \<open>unique_dims\<close> holds those already seen\<close>
  "dimension_items unique_dims correlations [] = correlations"
| "dimension_items unique_dims correlations (dm # dims) =
     (let dim_raw = or_str (get_default (d_raw dm) []) (get_default (d_dimensions dm) [])
      in if dim_raw \<noteq> [] \<and> dim_raw \<notin> set unique_dims then
           (case parse_dimension dim_raw of
              Some len \<Rightarrow>
                if len \<noteq> 0 \<and> len > 50
                then dimension_items (dim_raw # unique_dims)
                       (correlations @ [dimension_item (length correlations) dim_raw len]) dims
                else dimension_items (dim_raw # unique_dims) correlations dims
            | None \<Rightarrow> dimension_items (dim_raw # unique_dims) correlations dims)
         else dimension_items unique_dims correlations dims)"

definition placeholder :: "nat \<Rightarrow> nat \<Rightarrow> Correlation" where
  "placeholder total_constraints total_dims =
     \<lparr>c_dxf_profile = None, c_material_quantity = None,
      c_pdf_item = Some (no_item\<lparr>i_reference := Some ''PROJ-01'',
          i_description := Some (''Projeto (an'' @ [CHR 0xE1] @ ''lise autom'' @ [CHR 0xE1]
              @ ''tica: '' @ str_of_nat total_constraints @ '' specs, ''
              @ str_of_nat total_dims @ '' dimens'' @ [CHR 0xF5] @ ''es)''),
          i_quantity := Some 1,
          i_notes := Some (''Dados extra'' @ [CHR 0xED] @ ''dos de desenhos t'' @ [CHR 0xE9]
              @ ''cnicos. Revis'' @ [CHR 0xE3] @ ''o manual recomendada.'')\<rparr>),
      c_correlation_confidence = 0.1, c_correlation_method = ''placeholder'',
      c_quantity_source = ''estimated'', c_specifications = None\<rparr>"

record BudgetCalculator =
  params :: PricingParameters
  line_items :: "BudgetLineItem list"
  summary :: "BudgetSummary option"
  correlation_log :: "log_entry list"

definition init :: "PricingParameters \<Rightarrow> BudgetCalculator" where
  \<comment> \<open>\<open>BudgetCalculator(params)\<close>\<close>
  "init p = \<lparr>params = p, line_items = [], summary = None, correlation_log = []\<rparr>"

definition log_append :: "BudgetCalculator \<Rightarrow> log_entry \<Rightarrow> BudgetCalculator" where
  "log_append self e = self\<lparr>correlation_log := correlation_log self @ [e]\<rparr>"

definition create_fallback_correlations :: "BudgetCalculator \<Rightarrow> PdfData \<Rightarrow> DxfData
    \<Rightarrow> Correlation list \<times> BudgetCalculator" where
  "create_fallback_correlations self pdf_data dxf_data =
     (let self1 = log_append self CreatingFallbackItems;
          constraint_groups = index_constraints (pdf_constraints pdf_data);
          material_items = (case dict_get constraint_groups ''material_grade'' of
                              None \<Rightarrow> [] | Some g \<Rightarrow> g);
          c1 = map (\<lambda>(i, mat). material_item i mat) (enumerate 0 (take 10 material_items));
          treatment_items = (case dict_get constraint_groups ''surface_treatment'' of
                               None \<Rightarrow> [] | Some g \<Rightarrow> g);
          c2 = c1 @ map (\<lambda>(i, treat). treatment_item i treat)
                      (enumerate 0 (take 5 treatment_items));
          c3 = dimension_items [] c2 (take 20 (pdf_dimension_specs pdf_data));
          c4 = (if c3 = []
                then [placeholder (length (pdf_constraints pdf_data))
                        (length (pdf_dimension_specs pdf_data))]
                else c3)
      in (c4, self1))"

subsection \<open>Correlating the two sources\<close>

definition correlate_data :: "BudgetCalculator \<Rightarrow> DxfData \<Rightarrow> PdfData
    \<Rightarrow> Correlation list \<times> BudgetCalculator" where
  "correlate_data self dxf_data pdf_data =
     (let dxf_found = (get_default (dxf_success dxf_data) False \<and> length (dxf_profiles dxf_data) > 0);
          pdf_found = (get_default (pdf_success pdf_data) False \<and> length (pdf_bom_items pdf_data) > 0);
          pdf_lookup = build_pdf_lookup (pdf_bom_items pdf_data);
          constraints_by_type = index_constraints (pdf_constraints pdf_data);
          (correlations, self1) =
            (if dxf_found then
               (map (\<lambda>profile. correlate_profile_with_pdf profile pdf_lookup constraints_by_type)
                    (dxf_profiles dxf_data)
                @ map (\<lambda>material_qty.
                         create_material_correlation material_qty pdf_lookup constraints_by_type)
                      (filter (\<lambda>material_qty. mq_source material_qty = Some ''block_count'')
                              (dxf_material_quantities dxf_data)),
                log_append self (UsingDxfAsPrimary (length (dxf_profiles dxf_data))
                                   (length (dxf_material_quantities dxf_data))))
             else if pdf_found then
               (map (\<lambda>pdf_item.
                       \<lparr>c_dxf_profile = None, c_material_quantity = None,
                        c_pdf_item = Some pdf_item, c_correlation_confidence = 0.5,
                        c_correlation_method = ''pdf_only'', c_quantity_source = ''pdf'',
                        c_specifications = None\<rparr>) (pdf_bom_items pdf_data),
                log_append self (UsingPdfAsFallback (length (pdf_bom_items pdf_data))))
             else ([], self))
      in if correlations = [] then create_fallback_correlations self1 pdf_data dxf_data
         else (correlations, self1))"

subsection \<open>The budget\<close>

definition treatment_to_finish :: "string \<Rightarrow> string" where
  "treatment_to_finish treatment =
     (if treatment = ''none'' then ''Sem acabamento''
      else if treatment = ''anodizing_natural''
        then ''Anodiza'' @ [CHR 0xE7, CHR 0xE3] @ ''o natural''
      else if treatment = ''anodizing_colored''
        then ''Anodiza'' @ [CHR 0xE7, CHR 0xE3] @ ''o colorida''
      else if treatment = ''powder_coating_standard'' then ''Lacagem standard''
      else if treatment = ''powder_coating_qualicoat'' then ''Lacagem Qualicoat''
      else if treatment = ''powder_coating_seaside'' then ''Lacagem Seaside''
      else treatment)"

definition line_identity :: "Correlation \<Rightarrow> (real \<times> string \<times> string) option" where
  \<comment> \<open>quantity, reference and description by source priority; \<open>None\<close> is the
      \<open>continue\<close> of a correlation none of whose three dictionaries is truthy\<close>
  "line_identity correlation =
     (case truthy_dict empty_profile (c_dxf_profile correlation) of
        Some dxf_profile \<Rightarrow>
          Some (get_default (p_quantity dxf_profile) 1,
                or_str (get_default (p_layer dxf_profile) [])
                       (get_default (p_profile_id dxf_profile) []),
                get_default (p_entity_type dxf_profile) ''Perfil'' @ '' - ''
                  @ get_default (p_layer dxf_profile) [])
      | None \<Rightarrow>
         (case truthy_dict empty_material_quantity (c_material_quantity correlation) of
            Some material_qty \<Rightarrow>
              Some (get_default (mq_quantity material_qty) 1,
                    get_default (mq_profile_reference material_qty) [],
                    get_default (mq_description material_qty) ''Bloco DXF'')
          | None \<Rightarrow>
             (case truthy_dict no_item (c_pdf_item correlation) of
                Some pdf_item \<Rightarrow>
                  Some (real_of_int (py_int (get_default (i_quantity pdf_item) 1)),
                        get_default (i_reference pdf_item) [],
                        get_default (i_description pdf_item) [])
              | None \<Rightarrow> None)))"

definition count_holes :: "Feature list \<Rightarrow> nat" where
  "count_holes features = length (filter (\<lambda>f. feature_type f = Some ''hole'') features)"

definition bounding_length :: "DxfProfile \<Rightarrow> real" where
  \<comment> \<open>the larger side of the bounding box, a missing box or side counting as 0\<close>
  "bounding_length dxf_profile =
     (case p_bounding_box dxf_profile of
        None \<Rightarrow> max 0 0
      | Some bb \<Rightarrow> max (get_default (bb_width bb) 0) (get_default (bb_height bb) 0))"

definition new_line :: "string \<Rightarrow> Correlation \<Rightarrow> nat \<Rightarrow> BudgetLineItem option" where
  \<comment> \<open>the body of the loop of \<open>calculate_budget\<close> up to the pricing of the line\<close>
  "new_line surface_treatment correlation lid =
     (case line_identity correlation of
        None \<Rightarrow> None
      | Some (qty, ref, desc) \<Rightarrow>
         (let dxf_profile = truthy_dict empty_profile (c_dxf_profile correlation);
              material_qty = truthy_dict empty_material_quantity
                               (c_material_quantity correlation);
              pdf_item = truthy_dict no_item (c_pdf_item correlation);
              specs = get_default (c_specifications correlation) no_specifications;
              line0 = \<lparr>line_id = lid, reference = ref, description = desc,
                quantity = max 1 (py_int qty),
                quantity_source = c_quantity_source correlation,
                specs_source = (if pdf_item \<noteq> None \<and> dxf_profile \<noteq> None then ''both''
                                else if dxf_profile \<noteq> None then ''dxf'' else ''pdf''),
                profile_id = None, perimeter_mm = 0.0, area_mm2 = 0.0, length_mm = 0.0,
                weight_kg = 0.0, complexity_score = 1.0, holes_count = 0, entity_type = [],
                material = sp_material specs,
                finish = (if truthy_str (sp_finish specs) then sp_finish specs
                          else Some (treatment_to_finish surface_treatment)),
                thickness_mm = sp_thickness_mm specs,
                raw_material_cost = 0.0, transformation_cost = 0.0,
                surface_treatment_cost = 0.0, labor_cost = 0.0, accessories_cost = 0.0,
                unit_cost = 0.0, total_cost = 0.0,
                correlation_confidence = c_correlation_confidence correlation,
                correlation_method = c_correlation_method correlation,
                line_notes = []\<rparr>;
              line1 = (case dxf_profile of
                 Some prof \<Rightarrow>
                   line0\<lparr>profile_id := p_profile_id prof,
                     perimeter_mm := get_default (p_perimeter_mm prof) 0,
                     area_mm2 := get_default (p_area_mm2 prof) 0,
                     length_mm := or_real (get_default (p_length_mm prof) 0)
                                          (bounding_length prof),
                     weight_kg := get_default (p_weight_kg prof) 0,
                     complexity_score := get_default (p_complexity_score prof) 1.0,
                     entity_type := get_default (p_entity_type prof) [],
                     holes_count := count_holes (get_default (p_features prof) [])\<rparr>
               | None \<Rightarrow>
                  (case material_qty of
                     Some mq \<Rightarrow>
                       line0\<lparr>perimeter_mm := get_default (mq_unit_length_mm mq) 0,
                         area_mm2 := get_default (mq_unit_area_mm2 mq) 0,
                         length_mm := get_default (mq_unit_length_mm mq) 0\<rparr>
                   | None \<Rightarrow> line0));
              line2 = (case pdf_item of
                 Some item \<Rightarrow>
                   if length_mm line1 = 0
                   then line1\<lparr>length_mm := or_real (get_default (i_length_mm item) 0) 0\<rparr>
                   else line1
               | None \<Rightarrow> line1)
          in Some line2))"

fun price_lines :: "PricingParameters \<Rightarrow> string \<Rightarrow> nat \<Rightarrow> BudgetLineItem list
    \<Rightarrow> Correlation list \<Rightarrow> py_error + BudgetLineItem list" where
  \<comment> \<open>the loop of \<open>calculate_budget\<close>: \<open>lid\<close> is the running \<open>line_id\<close>, \<open>acc\<close> is
      \<open>self.line_items\<close>; an exception leaves the loop\<close>
  "price_lines p surface_treatment lid acc [] = Inr acc"
| "price_lines p surface_treatment lid acc (correlation # correlations) =
     (case new_line surface_treatment correlation (lid + 1) of
        None \<Rightarrow> price_lines p surface_treatment (lid + 1) acc correlations
      | Some line \<Rightarrow>
         (case calculate_line_costs p line surface_treatment of
            Inl e \<Rightarrow> Inl e
          | Inr priced \<Rightarrow>
              price_lines p surface_treatment (lid + 1) (acc @ [priced]) correlations))"

record BudgetResult =
  r_success :: bool
  r_line_items :: "BudgetLineItem list"
  r_summary :: "BudgetSummary option"
  r_parameters :: PricingParameters
  r_correlation_log :: "log_entry list"
  r_dxf_used :: bool
  r_pdf_used :: bool
  r_quantity_source :: string

text \<open>
  \<open>calculate_budget\<close> takes the calculator and returns it updated next to the result; the
  time stamp of the summary is a parameter. The result holds the line items and the
  summary themselves: their serialisation by \<open>to_dict\<close>, which rounds the floats for
  display, is not modelled. When the source raises, the model returns the exception alone.
\<close>

definition calculate_budget :: "BudgetCalculator \<Rightarrow> DxfData \<Rightarrow> PdfData \<Rightarrow> string \<Rightarrow> string
    \<Rightarrow> string \<Rightarrow> py_error + (BudgetResult \<times> BudgetCalculator)" where
  "calculate_budget self dxf_data pdf_data surface_treatment name now =
     (let dxf_found = (get_default (dxf_success dxf_data) False
                       \<and> length (dxf_profiles dxf_data) > 0);
          pdf_found = get_default (pdf_success pdf_data) False;
          (correlations, self1) = correlate_data self dxf_data pdf_data
      in case price_lines (params self1) surface_treatment 0 [] correlations of
           Inl e \<Rightarrow> Inl e
         | Inr items \<Rightarrow>
            (case calculate_summary (params self1) items name now dxf_found pdf_found of
               Inl e \<Rightarrow> Inl e
             | Inr s \<Rightarrow>
                (let self2 = self1\<lparr>line_items := items, summary := Some s\<rparr>
                 in Inr (\<lparr>r_success = True, r_line_items = line_items self2,
                          r_summary = summary self2, r_parameters = params self2,
                          r_correlation_log = correlation_log self2,
                          r_dxf_used = dxf_found, r_pdf_used = pdf_found,
                          r_quantity_source = (if dxf_found then ''dxf'' else ''pdf'')\<rparr>,
                         self2))))"

subsection \<open>Auxiliary notions and example inputs\<close>

definition has_source :: "Correlation \<Rightarrow> bool" where
  \<comment> \<open>one of the three dictionaries of the correlation is truthy: the loop of
      \<open>calculate_budget\<close> builds a line for it\<close>
  "has_source c =
     (truthy_dict empty_profile (c_dxf_profile c) \<noteq> None
      \<or> truthy_dict empty_material_quantity (c_material_quantity c) \<noteq> None
      \<or> truthy_dict no_item (c_pdf_item c) \<noteq> None)"

definition example_profile :: DxfProfile where
  "example_profile =
    \<lparr>p_profile_id = Some ''P1'', p_layer = Some ''PERFIL'', p_entity_type = Some ''LWPOLYLINE'',
     p_quantity = Some 1, p_perimeter_mm = Some 400, p_area_mm2 = Some 0,
     p_length_mm = Some 1000, p_bounding_box = None, p_weight_kg = Some 0,
     p_complexity_score = Some 1.0,
     p_features = Some [\<lparr>feature_type = Some ''hole''\<rparr>, \<lparr>feature_type = Some ''hole''\<rparr>],
     p_material_hint = None, p_other_keys = True\<rparr>"

definition example_dxf :: DxfData where
  "example_dxf = \<lparr>dxf_success = Some True, dxf_profiles = [example_profile],
     dxf_material_quantities = []\<rparr>"

definition empty_dxf :: DxfData where
  "empty_dxf = \<lparr>dxf_success = Some True, dxf_profiles = [], dxf_material_quantities = []\<rparr>"

definition empty_pdf :: PdfData where
  "empty_pdf = \<lparr>pdf_success = Some True, pdf_bom_items = [], pdf_constraints = [],
     pdf_dimension_specs = []\<rparr>"

definition lines_of :: "py_error + (BudgetResult \<times> BudgetCalculator) \<Rightarrow> BudgetLineItem list" where
  \<comment> \<open>the line items of the result of a run, none when the run raised\<close>
  "lines_of res = (case res of Inl e \<Rightarrow> [] | Inr (r, self) \<Rightarrow> r_line_items r)"

definition summary_of :: "py_error + (BudgetResult \<times> BudgetCalculator) \<Rightarrow> BudgetSummary option" where
  "summary_of res = (case res of Inl e \<Rightarrow> None | Inr (r, self) \<Rightarrow> r_summary r)"

definition log_of :: "py_error + (BudgetResult \<times> BudgetCalculator) \<Rightarrow> log_entry list" where
  "log_of res = (case res of Inl e \<Rightarrow> [] | Inr (r, self) \<Rightarrow> r_correlation_log r)"

definition calculator_of :: "py_error + (BudgetResult \<times> BudgetCalculator) \<Rightarrow> BudgetCalculator option" where
  \<comment> \<open>the calculator as a run that returned leaves it\<close>
  "calculator_of res = (case res of Inl e \<Rightarrow> None | Inr (r, self) \<Rightarrow> Some self)"

definition odd_pdf :: PdfData where
  \<comment> \<open>three rows whose quantities are zero, negative and fractional\<close>
  "odd_pdf = \<lparr>pdf_success = Some True,
     pdf_bom_items =
       [no_item\<lparr>i_reference := Some ''A1'', i_description := Some ''Perfil A'', i_quantity := Some 0\<rparr>,
        no_item\<lparr>i_reference := Some ''A2'', i_description := Some ''Perfil B'', i_quantity := Some (- 3)\<rparr>,
        no_item\<lparr>i_reference := Some ''A3'', i_description := Some ''Perfil C'', i_quantity := Some 2.5\<rparr>],
     pdf_constraints = [], pdf_dimension_specs = []\<rparr>"

definition example_line :: BudgetLineItem where
  \<comment> \<open>the line that \<open>calculate_budget\<close> builds for \<open>example_profile\<close> before pricing it\<close>
  "example_line =
    \<lparr>line_id = 1, reference = ''PERFIL'', description = ''LWPOLYLINE - PERFIL'', quantity = 1,
     quantity_source = ''dxf'', specs_source = ''dxf'', profile_id = Some ''P1'',
     perimeter_mm = 400, area_mm2 = 0, length_mm = 1000, weight_kg = 0,
     complexity_score = 1, holes_count = 2, entity_type = ''LWPOLYLINE'', material = None,
     finish = Some ''Sem acabamento'', thickness_mm = None, raw_material_cost = 0,
     transformation_cost = 0, surface_treatment_cost = 0, labor_cost = 0,
     accessories_cost = 0, unit_cost = 0, total_cost = 0, correlation_confidence = 0,
     correlation_method = ''none'', line_notes = []\<rparr>"

definition run_again :: "py_error + (BudgetResult \<times> BudgetCalculator)
    \<Rightarrow> (BudgetCalculator \<Rightarrow> py_error + (BudgetResult \<times> BudgetCalculator))
    \<Rightarrow> py_error + (BudgetResult \<times> BudgetCalculator)" where
  \<comment> \<open>a second call on the calculator that a first call has left\<close>
  "run_again res call = (case res of Inl e \<Rightarrow> Inl e | Inr (r, self) \<Rightarrow> call self)"

definition empty_row_pdf :: PdfData where
  \<comment> \<open>a specification whose only row is the empty dictionary\<close>
  "empty_row_pdf = \<lparr>pdf_success = Some True, pdf_bom_items = [no_item],
     pdf_constraints = [], pdf_dimension_specs = []\<rparr>"

definition short_line :: BudgetLineItem where
  \<comment> \<open>a line without weight, with a known area and a length under one metre\<close>
  "short_line = example_line\<lparr>area_mm2 := 100, length_mm := 500\<rparr>"

definition weight_of :: "py_error + BudgetLineItem \<Rightarrow> real option" where
  \<comment> \<open>the weight of the line that a pricing returned\<close>
  "weight_of res = (case res of Inl e \<Rightarrow> None | Inr line \<Rightarrow> Some (weight_kg line))"







section \<open>Properties\<close>

subsection \<open>Frame lemmas of the pricing of one line\<close>

lemma try_calculate_from_cost_db_frame:
  assumes "try_calculate_from_cost_db line = Some priced"
  shows "quantity priced = quantity line" "quantity_source priced = quantity_source line"
    "correlation_method priced = correlation_method line"
    "correlation_confidence priced = correlation_confidence line"
    "complexity_score priced = complexity_score line"
  using assms
  by (auto simp: try_calculate_from_cost_db_def Let_def split: option.splits if_splits)

lemma weight_if_not_provided_frame:
  "quantity (weight_if_not_provided line) = quantity line"
  "quantity_source (weight_if_not_provided line) = quantity_source line"
  "correlation_method (weight_if_not_provided line) = correlation_method line"
  "correlation_confidence (weight_if_not_provided line) = correlation_confidence line"
  "complexity_score (weight_if_not_provided line) = complexity_score line"
  "holes_count (weight_if_not_provided line) = holes_count line"
  by (simp_all add: weight_if_not_provided_def Let_def)

lemma formula_costs_frame:
  "quantity (formula_costs p m line st) = quantity line"
  "quantity_source (formula_costs p m line st) = quantity_source line"
  "correlation_method (formula_costs p m line st) = correlation_method line"
  "correlation_confidence (formula_costs p m line st) = correlation_confidence line"
  "complexity_score (formula_costs p m line st) = complexity_score line"
  by (simp_all add: formula_costs_def Let_def weight_if_not_provided_frame)

lemma calculate_line_costs_cases:
  assumes "calculate_line_costs p line st = Inr priced"
  shows "try_calculate_from_cost_db line = Some priced
    \<or> (try_calculate_from_cost_db line = None \<and> eur_to_usd p \<noteq> 0
        \<and> priced = formula_costs p
             ((lme_price_usd_kg p * (1 + lme_hedging_buffer_pct p / 100)
               + billet_premium_usd_kg p) / eur_to_usd p) line st)"
  using assms
  by (auto simp: calculate_line_costs_def HAS_COST_DB_def py_div_def Let_def
      split: option.splits if_splits sum.splits)

lemma calculate_line_costs_frame:
  assumes "calculate_line_costs p line st = Inr priced"
  shows "quantity priced = quantity line" "quantity_source priced = quantity_source line"
    "correlation_method priced = correlation_method line"
    "correlation_confidence priced = correlation_confidence line"
    "complexity_score priced = complexity_score line"
  using calculate_line_costs_cases [OF assms]
  by (auto simp: formula_costs_frame try_calculate_from_cost_db_frame)

subsection \<open>The loop over the correlations\<close>

lemma price_lines_new:
  assumes "price_lines p st lid acc cs = Inr items"
  shows "\<exists>new. items = acc @ new \<and>
    (\<forall>l\<in>set new. \<exists>c\<in>set cs. \<exists>k line. new_line st c k = Some line
        \<and> calculate_line_costs p line st = Inr l)"
  using assms
proof (induction cs arbitrary: lid acc)
  case Nil
  then show ?case by simp
next
  case (Cons c cs)
  show ?case
  proof (cases "new_line st c (lid + 1)")
    case None
    with Cons.prems have "price_lines p st (lid + 1) acc cs = Inr items" by simp
    from Cons.IH [OF this] show ?thesis by auto
  next
    case (Some line)
    with Cons.prems obtain priced where
      pr: "calculate_line_costs p line st = Inr priced"
      and rest: "price_lines p st (lid + 1) (acc @ [priced]) cs = Inr items"
      by (auto split: sum.splits)
    from Cons.IH [OF rest] obtain new where
      n: "items = (acc @ [priced]) @ new"
      "\<forall>l\<in>set new. \<exists>c\<in>set cs. \<exists>k line. new_line st c k = Some line
          \<and> calculate_line_costs p line st = Inr l"
      by blast
    have "items = acc @ (priced # new)" using n(1) by simp
    moreover have "\<forall>l\<in>set (priced # new). \<exists>c'\<in>set (c # cs). \<exists>k line.
          new_line st c' k = Some line \<and> calculate_line_costs p line st = Inr l"
      using n(2) Some pr by auto
    ultimately show ?thesis by blast
  qed
qed

lemma new_line_fields:
  assumes "new_line st c k = Some line"
  shows "1 \<le> quantity line" "quantity_source line = c_quantity_source c"
    "correlation_method line = c_correlation_method c"
    "correlation_confidence line = c_correlation_confidence c"
  using assms
  by (auto simp: new_line_def Let_def split: option.splits prod.splits if_splits)

subsection \<open>What a run of the calculator is made of\<close>

lemma log_append_params [simp]: "params (log_append self e) = params self"
  by (simp add: log_append_def)

lemma correlate_data_params: "params (snd (correlate_data self dxf pdf)) = params self"
  by (simp add: correlate_data_def create_fallback_correlations_def Let_def split: prod.splits if_splits)

lemma calculate_budget_run:
  assumes "calculate_budget self dxf pdf st name now = Inr (r, self')"
  shows "\<exists>items s.
      price_lines (params self) st 0 [] (fst (correlate_data self dxf pdf)) = Inr items
    \<and> calculate_summary (params self) items name now
         (get_default (dxf_success dxf) False \<and> length (dxf_profiles dxf) > 0)
         (get_default (pdf_success pdf) False) = Inr s
    \<and> r_line_items r = items \<and> r_summary r = Some s
    \<and> r_parameters r = params self
    \<and> r_correlation_log r = correlation_log (snd (correlate_data self dxf pdf))
    \<and> self' = (snd (correlate_data self dxf pdf))\<lparr>line_items := items, summary := Some s\<rparr>"
proof -
  obtain cs self1 where cd: "correlate_data self dxf pdf = (cs, self1)"
    by (cases "correlate_data self dxf pdf")
  have p: "params self1 = params self"
    using correlate_data_params [of self dxf pdf] cd by simp
  show ?thesis
    using assms cd p
    by (auto simp: calculate_budget_def Let_def split: sum.splits)
qed

subsection \<open>Character classes on literals\<close>

lemma py_isdigit_Char:
  "py_isdigit (Char b0 b1 b2 b3 b4 b5 b6 b7) \<longleftrightarrow>
     b4 \<and> b5 \<and> \<not> b6 \<and> \<not> b7 \<and> (\<not> b3 \<or> (\<not> b1 \<and> \<not> b2))"
  by (cases b0; cases b1; cases b2; cases b3; cases b4; cases b5; cases b6; cases b7;
      simp add: py_isdigit_def ord_def)

lemma py_isspace_Char:
  "py_isspace (Char b0 b1 b2 b3 b4 b5 b6 b7) \<longleftrightarrow>
     (\<not> b7 \<and> \<not> b6 \<and> \<not> b5 \<and> \<not> b4 \<and> b3 \<and> (b0 \<or> b1 \<or> b2) \<and> \<not> (b2 \<and> b1))
   \<or> (\<not> b7 \<and> \<not> b6 \<and> \<not> b5 \<and> b4 \<and> b3 \<and> b2)
   \<or> (\<not> b7 \<and> \<not> b6 \<and> b5 \<and> \<not> b4 \<and> \<not> b3 \<and> \<not> b2 \<and> \<not> b1 \<and> \<not> b0)
   \<or> (b7 \<and> \<not> b6 \<and> \<not> b5 \<and> \<not> b4 \<and> \<not> b3 \<and> b2 \<and> \<not> b1 \<and> b0)
   \<or> (b7 \<and> \<not> b6 \<and> b5 \<and> \<not> b4 \<and> \<not> b3 \<and> \<not> b2 \<and> \<not> b1 \<and> \<not> b0)"
  by (cases b0; cases b1; cases b2; cases b3; cases b4; cases b5; cases b6; cases b7;
      simp add: py_isspace_def ord_def)

lemma upper_char_Char:
  "upper_char (Char b0 b1 b2 b3 b4 b5 b6 b7) =
     (if b5 \<and> b6 \<and> ((\<not> b7 \<and> (b0 \<or> b1 \<or> b2 \<or> b3 \<or> b4) \<and> \<not> (b4 \<and> b3 \<and> (b2 \<or> (b1 \<and> b0))))
                    \<or> (b7 \<and> \<not> (b4 \<and> b2 \<and> b1 \<and> b0)))
      then [Char b0 b1 b2 b3 b4 False b6 b7]
      else if b0 \<and> b1 \<and> b2 \<and> b3 \<and> b4 \<and> \<not> b5 \<and> b6 \<and> b7 then ''SS''
      else [Char b0 b1 b2 b3 b4 b5 b6 b7])"
  by (cases b0; cases b1; cases b2; cases b3; cases b4; cases b5; cases b6; cases b7;
      simp add: upper_char_def ord_def minus32_def)

lemma lower_char_Char:
  "lower_char (Char b0 b1 b2 b3 b4 b5 b6 b7) =
     (if \<not> b5 \<and> b6 \<and> ((\<not> b7 \<and> (b0 \<or> b1 \<or> b2 \<or> b3 \<or> b4) \<and> \<not> (b4 \<and> b3 \<and> (b2 \<or> (b1 \<and> b0))))
                    \<or> (b7 \<and> \<not> (b4 \<and> b2 \<and> b1 \<and> b0)))
      then Char b0 b1 b2 b3 b4 True b6 b7
      else Char b0 b1 b2 b3 b4 b5 b6 b7)"
  by (cases b0; cases b1; cases b2; cases b3; cases b4; cases b5; cases b6; cases b7;
      simp add: lower_char_def ord_def plus32_def)

lemmas string_eval = py_isdigit_Char py_isspace_Char upper_char_Char lower_char_Char
  py_upper_def py_lower_def py_strip_def normalize_profile_name_def strip_separators_def
  digits_or_dot_def dot_or_space_def lit_def cls_def

lemmas pattern_eval = match_term_def profile_patterns_def extract_profile_name_def

subsection \<open>What the correlator produces\<close>

lemma correlate_profile_with_pdf_fields:
  "c_quantity_source (correlate_profile_with_pdf profile lk cs) = ''dxf''"
  "c_dxf_profile (correlate_profile_with_pdf profile lk cs) = Some profile"
  by (simp_all add: correlate_profile_with_pdf_def Let_def split: prod.splits)

lemma create_material_correlation_fields:
  "c_quantity_source (create_material_correlation mq lk cs) = ''dxf''"
  "c_correlation_method (create_material_correlation mq lk cs) = ''block_count''"
  "c_material_quantity (create_material_correlation mq lk cs) = Some mq"
  by (simp_all add: create_material_correlation_def Let_def)

lemma dimension_items_sources:
  assumes "\<forall>c\<in>set acc. has_source c"
  shows "\<forall>c\<in>set (dimension_items seen acc dims). has_source c"
  using assms
proof (induction dims arbitrary: seen acc)
  case Nil
  then show ?case by simp
next
  case (Cons d dims)
  have new: "\<And>n s len. has_source (dimension_item n s len)"
    by (simp add: has_source_def dimension_item_def truthy_dict_def no_item_def)
  have IH1: "\<And>seen. \<forall>c\<in>set (dimension_items seen acc dims). has_source c"
    using Cons.IH [OF Cons.prems] .
  have IH2: "\<And>seen n s len.
      \<forall>c\<in>set (dimension_items seen (acc @ [dimension_item n s len]) dims). has_source c"
    using Cons.prems new by (intro Cons.IH) simp
  show ?case
    by (simp add: Let_def IH1 IH2 split: option.splits)
qed

lemma fallback_sources:
  "\<forall>c\<in>set (fst (create_fallback_correlations self pdf dxf)). has_source c"
proof -
  have 1: "\<And>i m. has_source (material_item i m)" "\<And>i m. has_source (treatment_item i m)"
    "\<And>a b. has_source (placeholder a b)"
    by (simp_all add: has_source_def material_item_def treatment_item_def placeholder_def
        truthy_dict_def no_item_def)
  define groups where "groups = index_constraints (pdf_constraints pdf)"
  define c2 where "c2 =
    map (\<lambda>(i, mat). material_item i mat)
      (enumerate 0 (take 10 (case dict_get groups ''material_grade'' of
                               None \<Rightarrow> [] | Some g \<Rightarrow> g)))
    @ map (\<lambda>(i, treat). treatment_item i treat)
      (enumerate 0 (take 5 (case dict_get groups ''surface_treatment'' of
                              None \<Rightarrow> [] | Some g \<Rightarrow> g)))"
  have c2: "\<forall>c\<in>set c2. has_source c"
    unfolding c2_def by (auto simp: 1)
  have c3: "\<forall>c\<in>set (dimension_items [] c2 (take 20 (pdf_dimension_specs pdf))). has_source c"
    by (rule dimension_items_sources [OF c2])
  have "fst (create_fallback_correlations self pdf dxf) =
      (if dimension_items [] c2 (take 20 (pdf_dimension_specs pdf)) = []
       then [placeholder (length (pdf_constraints pdf)) (length (pdf_dimension_specs pdf))]
       else dimension_items [] c2 (take 20 (pdf_dimension_specs pdf)))"
    by (simp add: create_fallback_correlations_def Let_def c2_def groups_def)
  then show ?thesis
    using c3 by (simp add: 1)
qed

lemma fallback_nonempty: "fst (create_fallback_correlations self pdf dxf) \<noteq> []"
  by (simp add: create_fallback_correlations_def Let_def)

lemma fallback_snd:
  "snd (create_fallback_correlations self pdf dxf) = log_append self CreatingFallbackItems"
  by (simp add: create_fallback_correlations_def Let_def)

lemma fallback_fst_indep:
  "fst (create_fallback_correlations self pdf dxf) = fst (create_fallback_correlations self' pdf dxf)"
  by (simp add: create_fallback_correlations_def Let_def)

lemma correlate_data_unfold:
  "correlate_data self dxf pdf =
    (if get_default (dxf_success dxf) False \<and> dxf_profiles dxf \<noteq> [] then
       (map (\<lambda>profile. correlate_profile_with_pdf profile (build_pdf_lookup (pdf_bom_items pdf))
                (index_constraints (pdf_constraints pdf))) (dxf_profiles dxf)
        @ map (\<lambda>mq. create_material_correlation mq (build_pdf_lookup (pdf_bom_items pdf))
                (index_constraints (pdf_constraints pdf)))
              (filter (\<lambda>mq. mq_source mq = Some ''block_count'') (dxf_material_quantities dxf)),
        log_append self (UsingDxfAsPrimary (length (dxf_profiles dxf))
                           (length (dxf_material_quantities dxf))))
     else if get_default (pdf_success pdf) False \<and> pdf_bom_items pdf \<noteq> [] then
       (map (\<lambda>pdf_item. \<lparr>c_dxf_profile = None, c_material_quantity = None,
                c_pdf_item = Some pdf_item, c_correlation_confidence = 0.5,
                c_correlation_method = ''pdf_only'', c_quantity_source = ''pdf'',
                c_specifications = None\<rparr>) (pdf_bom_items pdf),
        log_append self (UsingPdfAsFallback (length (pdf_bom_items pdf))))
     else create_fallback_correlations self pdf dxf)"
  by (simp add: correlate_data_def Let_def)

lemma correlate_data_nonempty: "fst (correlate_data self dxf pdf) \<noteq> []"
  by (simp add: correlate_data_unfold fallback_nonempty)

lemma correlate_data_fst_indep:
  "fst (correlate_data self dxf pdf) = fst (correlate_data self' dxf pdf)"
  using fallback_fst_indep [of self pdf dxf self']
  by (simp add: correlate_data_unfold)

lemma correlate_data_log:
  "\<exists>e. correlation_log (snd (correlate_data self dxf pdf)) = correlation_log self @ [e]"
  by (simp add: correlate_data_unfold fallback_snd log_append_def)

subsection \<open>When a run returns\<close>

lemma new_line_some:
  assumes "has_source c"
  shows "\<exists>line. new_line st c k = Some line"
  using assms
  by (auto simp: new_line_def line_identity_def has_source_def Let_def split: option.splits)

lemma new_line_none:
  assumes "\<not> has_source c"
  shows "new_line st c k = None"
  using assms
  by (auto simp: new_line_def line_identity_def has_source_def Let_def split: option.splits)

lemma calculate_line_costs_returns:
  assumes "eur_to_usd p \<noteq> 0"
  shows "\<exists>priced. calculate_line_costs p line st = Inr priced"
  using assms
  by (simp add: calculate_line_costs_def py_div_def Let_def split: option.splits)

lemma price_lines_returns:
  assumes "eur_to_usd p \<noteq> 0"
  shows "\<exists>items. price_lines p st lid acc cs = Inr items
    \<and> length items = length acc + length (filter has_source cs)"
proof (induction cs arbitrary: lid acc)
  case Nil
  then show ?case by simp
next
  case (Cons c cs)
  show ?case
  proof (cases "has_source c")
    case False
    then have "new_line st c (lid + 1) = None" by (rule new_line_none)
    with Cons.IH [of "lid + 1" acc] False show ?thesis by simp
  next
    case True
    then obtain line where l: "new_line st c (lid + 1) = Some line"
      using new_line_some by blast
    obtain priced where pr: "calculate_line_costs p line st = Inr priced"
      using calculate_line_costs_returns [OF assms] by blast
    from Cons.IH [of "lid + 1" "acc @ [priced]"] l pr True
    show ?thesis by auto
  qed
qed

lemma calculate_summary_returns:
  assumes "labor_rate_eur_hr p \<noteq> 0"
  shows "\<exists>s. calculate_summary p items name now a b = Inr s"
  using assms by (simp add: calculate_summary_def py_div_def Let_def)

lemma calculate_budget_returns:
  assumes "eur_to_usd (params self) \<noteq> 0" and "labor_rate_eur_hr (params self) \<noteq> 0"
  shows "\<exists>r self'. calculate_budget self dxf pdf st name now = Inr (r, self')
    \<and> length (r_line_items r) = length (filter has_source (fst (correlate_data self dxf pdf)))"
proof -
  obtain cs self1 where cd: "correlate_data self dxf pdf = (cs, self1)"
    by (cases "correlate_data self dxf pdf")
  have p: "params self1 = params self"
    using correlate_data_params [of self dxf pdf] cd by simp
  obtain items where it: "price_lines (params self) st 0 [] cs = Inr items"
    "length items = length (filter has_source cs)"
    using price_lines_returns [OF assms(1), of st 0 "[]" cs] by auto
  obtain s where s: "calculate_summary (params self) items name now
      (get_default (dxf_success dxf) False \<and> length (dxf_profiles dxf) > 0)
      (get_default (pdf_success pdf) False) = Inr s"
    using calculate_summary_returns [OF assms(2)] by blast
  show ?thesis
    using cd p it s by (simp add: calculate_budget_def Let_def)
qed

lemma calculate_budget_zero_rate:
  assumes "eur_to_usd (params self) \<noteq> 0" and "labor_rate_eur_hr (params self) = 0"
  shows "calculate_budget self dxf pdf st name now = Inl ZeroDivisionError"
proof -
  obtain cs self1 where cd: "correlate_data self dxf pdf = (cs, self1)"
    by (cases "correlate_data self dxf pdf")
  have p: "params self1 = params self"
    using correlate_data_params [of self dxf pdf] cd by simp
  obtain items where it: "price_lines (params self) st 0 [] cs = Inr items"
    using price_lines_returns [OF assms(1), of st 0 "[]" cs] by auto
  have "calculate_summary (params self) items name now
      (get_default (dxf_success dxf) False \<and> length (dxf_profiles dxf) > 0)
      (get_default (pdf_success pdf) False) = Inl ZeroDivisionError"
    using assms(2) by (simp add: calculate_summary_def py_div_def Let_def)
  then show ?thesis
    using cd p it by (simp add: calculate_budget_def Let_def)
qed

lemma new_line_no_profile:
  assumes "new_line st c k = Some line" and "c_dxf_profile c = None"
  shows "complexity_score line = 1"
  using assms
  by (auto simp: new_line_def truthy_dict_def Let_def
      split: option.splits prod.splits if_splits)

lemma new_line_placeholder:
  assumes "new_line st (placeholder a b) k = Some line"
  shows "quantity line = 1"
  using assms
  by (auto simp: new_line_def line_identity_def placeholder_def no_item_def get_default_def
      py_int_def truthy_dict_def Let_def split: option.splits prod.splits if_splits)

lemma empty_input_correlations:
  assumes "dxf_profiles dxf = []" and "pdf_bom_items pdf = []" and "pdf_constraints pdf = []"
    and "pdf_dimension_specs pdf = []"
  shows "correlate_data self dxf pdf = ([placeholder 0 0], log_append self CreatingFallbackItems)"
  using assms
  by (simp add: correlate_data_unfold create_fallback_correlations_def index_constraints_def
      enumerate_eq_zip Let_def)

lemma empty_input_run:
  assumes "dxf_profiles dxf = []" and "pdf_bom_items pdf = []" and "pdf_constraints pdf = []"
    and "pdf_dimension_specs pdf = []"
    and "eur_to_usd (params self) \<noteq> 0" and "labor_rate_eur_hr (params self) \<noteq> 0"
  shows "\<exists>r self' l. calculate_budget self dxf pdf st name now = Inr (r, self')
    \<and> r_line_items r = [l] \<and> correlation_method l = ''placeholder''
    \<and> correlation_confidence l = 0.1 \<and> quantity l = 1 \<and> quantity_source l = ''estimated''
    \<and> complexity_score l = 1"
proof -
  have cs: "fst (correlate_data self dxf pdf) = [placeholder 0 0]"
    using empty_input_correlations [OF assms(1-4)] by simp
  have src: "has_source (placeholder 0 0)"
    by (simp add: has_source_def placeholder_def truthy_dict_def no_item_def)
  obtain r self' where run: "calculate_budget self dxf pdf st name now = Inr (r, self')"
    and len: "length (r_line_items r)
      = length (filter has_source (fst (correlate_data self dxf pdf)))"
    using calculate_budget_returns [OF assms(5,6)] by blast
  from len cs src obtain l where l: "r_line_items r = [l]"
    by (cases "r_line_items r") auto
  from calculate_budget_run [OF run] cs have
    "price_lines (params self) st 0 [] [placeholder 0 0] = Inr (r_line_items r)"
    by auto
  from price_lines_new [OF this] l obtain k line where
    n: "new_line st (placeholder 0 0) k = Some line"
    and p: "calculate_line_costs (params self) line st = Inr l"
    by auto
  have "correlation_method l = ''placeholder''" "correlation_confidence l = 0.1"
    "quantity_source l = ''estimated''"
    using calculate_line_costs_frame [OF p] new_line_fields [OF n]
    by (simp_all add: placeholder_def)
  moreover have "quantity l = 1"
    using calculate_line_costs_frame(1) [OF p] new_line_placeholder [OF n] by simp
  moreover have "complexity_score l = 1"
    using calculate_line_costs_frame(5) [OF p] new_line_no_profile [OF n]
    by (simp add: placeholder_def)
  ultimately show ?thesis using run l by auto
qed

lemma odd_correlations:
  "length (filter has_source (fst (correlate_data self empty_dxf odd_pdf))) = 3"
  by (simp add: correlate_data_unfold empty_dxf_def odd_pdf_def get_default_def
      has_source_def truthy_dict_def no_item_def)

lemma example_correlation:
  "correlate_data self example_dxf empty_pdf =
     ([correlate_profile_with_pdf example_profile (build_pdf_lookup []) (index_constraints [])],
      log_append self (UsingDxfAsPrimary 1 0))"
  by (simp add: correlate_data_unfold example_dxf_def empty_pdf_def get_default_def)

lemma example_has_source:
  "filter has_source (fst (correlate_data self example_dxf empty_pdf))
     = fst (correlate_data self example_dxf empty_pdf)"
  by (simp add: example_correlation has_source_def correlate_profile_with_pdf_fields
      truthy_dict_def example_profile_def empty_profile_def)


lemma example_no_match: "extract_profile_name example_line = None"
  by (simp add: example_line_def get_default_def pattern_eval string_eval)


lemma sum_list_ge_length:
  fixes f :: "'a \<Rightarrow> real"
  assumes "\<forall>x\<in>set xs. 1 \<le> f x"
  shows "real (length xs) \<le> (\<Sum>x\<leftarrow>xs. f x)"
  using assms by (induction xs) auto

lemma calculate_budget_intro:
  assumes "price_lines (params self) st 0 [] (fst (correlate_data self dxf pdf)) = Inr items"
    and "calculate_summary (params self) items name now
         (get_default (dxf_success dxf) False \<and> length (dxf_profiles dxf) > 0)
         (get_default (pdf_success pdf) False) = Inr s"
  shows "\<exists>r self'. calculate_budget self dxf pdf st name now = Inr (r, self')
    \<and> r_line_items r = items"
proof -
  obtain cs self1 where cd: "correlate_data self dxf pdf = (cs, self1)"
    by (cases "correlate_data self dxf pdf")
  have p: "params self1 = params self"
    using correlate_data_params [of self dxf pdf] cd by simp
  show ?thesis
    using assms cd p by (simp add: calculate_budget_def Let_def)
qed

text \<open>
  A row that is the empty dictionary gives a correlation and no line: the loop of
  \<open>calculate_budget\<close> skips it, and the summary of the run has the average complexity 0.
\<close>

lemma empty_row_run:
  "lines_of (calculate_budget (init default_parameters) empty_dxf empty_row_pdf
      ''none'' ''Q'' ''t'') = []
   \<and> map_option average_complexity
       (summary_of (calculate_budget (init default_parameters) empty_dxf empty_row_pdf
          ''none'' ''Q'' ''t'')) = Some 0
   \<and> map_option waste_percentage_applied
       (summary_of (calculate_budget (init default_parameters) empty_dxf empty_row_pdf
          ''none'' ''Q'' ''t'')) = Some 4"
proof -
  have cs: "filter has_source
      (fst (correlate_data (init default_parameters) empty_dxf empty_row_pdf)) = []"
    by (simp add: correlate_data_unfold empty_dxf_def empty_row_pdf_def get_default_def
        has_source_def truthy_dict_def)
  have d: "eur_to_usd (params (init default_parameters)) \<noteq> 0"
    "labor_rate_eur_hr (params (init default_parameters)) \<noteq> 0"
    by (simp_all add: init_def default_parameters_def)
  obtain r self' where
    run: "calculate_budget (init default_parameters) empty_dxf empty_row_pdf
        ''none'' ''Q'' ''t'' = Inr (r, self')"
    and len: "length (r_line_items r) = length (filter has_source
        (fst (correlate_data (init default_parameters) empty_dxf empty_row_pdf)))"
    using calculate_budget_returns [OF d] by blast
  have l: "r_line_items r = []" using len cs by simp
  from calculate_budget_run [OF run] l obtain s where
    s: "calculate_summary (params (init default_parameters)) [] ''Q'' ''t''
         (get_default (dxf_success empty_dxf) False \<and> length (dxf_profiles empty_dxf) > 0)
         (get_default (pdf_success empty_row_pdf) False) = Inr s"
    and r: "r_summary r = Some s"
    by auto
  from s have "average_complexity s = 0" "waste_percentage_applied s = 4"
    by (auto simp: calculate_summary_def Let_def init_def default_parameters_def
        split: sum.splits)
  with run l r show ?thesis by (simp add: lines_of_def summary_of_def)
qed

lemma extract_profile_name_fields:
  assumes "description l = description l'" and "reference l = reference l'"
    and "profile_id l = profile_id l'"
  shows "extract_profile_name l = extract_profile_name l'"
  using assms by (simp add: extract_profile_name_def)

lemma short_line_no_catalogue: "try_calculate_from_cost_db short_line = None"
proof -
  have "extract_profile_name short_line = extract_profile_name example_line"
    by (rule extract_profile_name_fields) (simp_all add: short_line_def)
  then show ?thesis
    by (simp add: try_calculate_from_cost_db_def example_no_match)
qed

subsection \<open>The rows of the catalogue\<close>










subsection \<open>The costs of a priced line\<close>







lemma singleton_map:
  assumes "length xs = 1" and "\<forall>x\<in>set xs. f x = a"
  shows "map f xs = [a]"
  using assms by (cases xs) auto

lemma example_correlations:
  "length (fst (correlate_data self example_dxf empty_pdf)) = 1"
  by (simp add: example_correlation)

lemma default_divisors:
  "eur_to_usd (params (init default_parameters)) \<noteq> 0"
  "labor_rate_eur_hr (params (init default_parameters)) \<noteq> 0"
  by (simp_all add: init_def default_parameters_def)

text \<open>
  C1. Whenever the geometry data has its success flag set and holds a profile, every
  correlation that \<open>correlate_data\<close> produces, those of the counted blocks included, and
  every line of a budget that \<open>calculate_budget\<close> returns has the quantity source
  \<open>dxf\<close>, whatever the specification data and whatever the confidence.
\<close>

theorem prevalence:
  assumes "get_default (dxf_success dxf) False" and "dxf_profiles dxf \<noteq> []"
  shows "(\<forall>c\<in>set (fst (correlate_data self dxf pdf)). c_quantity_source c = ''dxf'')
    \<and> (\<forall>r self'. calculate_budget self dxf pdf st name now = Inr (r, self')
          \<longrightarrow> (\<forall>l\<in>set (r_line_items r). quantity_source l = ''dxf''))"
proof -
  have cs: "\<forall>c\<in>set (fst (correlate_data self dxf pdf)). c_quantity_source c = ''dxf''"
    using assms
    by (auto simp: correlate_data_unfold correlate_profile_with_pdf_fields
        create_material_correlation_fields)
  have "\<forall>l\<in>set (r_line_items r). quantity_source l = ''dxf''"
    if run: "calculate_budget self dxf pdf st name now = Inr (r, self')" for r self'
  proof
    fix l assume l: "l \<in> set (r_line_items r)"
    from calculate_budget_run [OF run] have
      "price_lines (params self) st 0 [] (fst (correlate_data self dxf pdf)) = Inr (r_line_items r)"
      by auto
    from price_lines_new [OF this] l obtain c k line where
      c: "c \<in> set (fst (correlate_data self dxf pdf))"
      and n: "new_line st c k = Some line"
      and p: "calculate_line_costs (params self) line st = Inr l"
      by auto
    show "quantity_source l = ''dxf''"
      using calculate_line_costs_frame(2) [OF p] new_line_fields(2) [OF n] cs c by simp
  qed
  with cs show ?thesis by blast
qed

theorem prevalence_witness:
  "get_default (dxf_success example_dxf) False \<and> dxf_profiles example_dxf \<noteq> []
   \<and> map c_quantity_source (fst (correlate_data (init default_parameters) example_dxf empty_pdf))
       = [''dxf'']
   \<and> (\<exists>r self'. calculate_budget (init default_parameters) example_dxf empty_pdf
          ''none'' ''Q'' ''t'' = Inr (r, self')
        \<and> map quantity_source (r_line_items r) = [''dxf''])"
proof -
  have h: "get_default (dxf_success example_dxf) False" "dxf_profiles example_dxf \<noteq> []"
    by (simp_all add: example_dxf_def get_default_def)
  note p = prevalence [OF h, of "init default_parameters" empty_pdf "''none''" "''Q''" "''t''"]
  obtain r self' where run: "calculate_budget (init default_parameters) example_dxf empty_pdf
      ''none'' ''Q'' ''t'' = Inr (r, self')"
    and len: "length (r_line_items r) = length (filter has_source
        (fst (correlate_data (init default_parameters) example_dxf empty_pdf)))"
    using calculate_budget_returns [OF default_divisors] by blast
  have "map quantity_source (r_line_items r) = [''dxf'']"
    using p run len example_correlations example_has_source
    by (intro singleton_map) auto
  moreover have "map c_quantity_source
      (fst (correlate_data (init default_parameters) example_dxf empty_pdf)) = [''dxf'']"
    using p example_correlations by (intro singleton_map) auto
  ultimately show ?thesis using h run by auto
qed

text \<open>
  C2. Every line of a budget that \<open>calculate_budget\<close> returns has an integer quantity of
  at least 1, whatever the quantities of the geometry and of the specification are
  (zero, negative or fractional).
\<close>

theorem quantity_floor:
  assumes "calculate_budget self dxf pdf st name now = Inr (r, self')"
  shows "\<forall>l\<in>set (r_line_items r). 1 \<le> quantity l"
proof
  fix l assume l: "l \<in> set (r_line_items r)"
  from calculate_budget_run [OF assms] have
    "price_lines (params self) st 0 [] (fst (correlate_data self dxf pdf)) = Inr (r_line_items r)"
    by auto
  from price_lines_new [OF this] l obtain c k line where
    n: "new_line st c k = Some line"
    and p: "calculate_line_costs (params self) line st = Inr l"
    by auto
  show "1 \<le> quantity l"
    using calculate_line_costs_frame(1) [OF p] new_line_fields(1) [OF n] by simp
qed

theorem quantity_floor_witness:
  "length (lines_of (calculate_budget (init default_parameters) empty_dxf odd_pdf
      ''none'' ''Q'' ''t'')) = 3
   \<and> list_all (\<lambda>l. 1 \<le> quantity l)
       (lines_of (calculate_budget (init default_parameters) empty_dxf odd_pdf
          ''none'' ''Q'' ''t''))"
proof -
  obtain r self' where run: "calculate_budget (init default_parameters) empty_dxf odd_pdf
      ''none'' ''Q'' ''t'' = Inr (r, self')"
    and len: "length (r_line_items r) = length (filter has_source
        (fst (correlate_data (init default_parameters) empty_dxf odd_pdf)))"
    using calculate_budget_returns [OF default_divisors] by blast
  from quantity_floor [OF run] have "list_all (\<lambda>l. 1 \<le> quantity l) (r_line_items r)"
    by (simp add: list_all_iff)
  with run len odd_correlations show ?thesis
    by (simp add: lines_of_def)
qed

text \<open>
  C4. In the summary of every run that returns, the subtotal is the sum of the five cost
  totals, the waste cost and the overhead cost; the overhead cost is the direct costs (the
  five totals and the waste cost) times the overhead percentage; the total quote is the
  subtotal plus the subtotal times the margin percentage.
\<close>

theorem aggregation_identity:
  assumes "calculate_budget self dxf pdf st name now = Inr (r, self')"
  shows "\<exists>s. r_summary r = Some s
    \<and> subtotal s = raw_material_total s + transformation_total s + surface_treatment_total s
        + labor_total s + accessories_total s + waste_cost s + overhead_cost s
    \<and> overhead_cost s = (raw_material_total s + transformation_total s
        + surface_treatment_total s + labor_total s + accessories_total s + waste_cost s)
        * (overhead_factor_pct (params self) / 100)
    \<and> total_quote s = subtotal s + subtotal s * (profit_margin_pct (params self) / 100)"
proof -
  from calculate_budget_run [OF assms] obtain items s where
    s: "calculate_summary (params self) items name now
         (get_default (dxf_success dxf) False \<and> length (dxf_profiles dxf) > 0)
         (get_default (pdf_success pdf) False) = Inr s"
    and r: "r_summary r = Some s"
    by blast
  from s have "subtotal s = raw_material_total s + transformation_total s
        + surface_treatment_total s + labor_total s + accessories_total s + waste_cost s
        + overhead_cost s"
    and "overhead_cost s = (raw_material_total s + transformation_total s
        + surface_treatment_total s + labor_total s + accessories_total s + waste_cost s)
        * (overhead_factor_pct (params self) / 100)"
    and "total_quote s = subtotal s + subtotal s * (profit_margin_pct (params self) / 100)"
    by (auto simp: calculate_summary_def Let_def split: sum.splits)
  with r show ?thesis by blast
qed

theorem aggregation_identity_witness:
  "map_option (\<lambda>s. subtotal s = raw_material_total s + transformation_total s
        + surface_treatment_total s + labor_total s + accessories_total s + waste_cost s
        + overhead_cost s
      \<and> overhead_cost s = (raw_material_total s + transformation_total s
        + surface_treatment_total s + labor_total s + accessories_total s + waste_cost s)
        * (15 / 100)
      \<and> total_quote s = subtotal s + subtotal s * (20 / 100))
     (summary_of (calculate_budget (init default_parameters) example_dxf empty_pdf
        ''none'' ''Q'' ''t'')) = Some True"
proof -
  obtain r self' where run: "calculate_budget (init default_parameters) example_dxf empty_pdf
      ''none'' ''Q'' ''t'' = Inr (r, self')"
    using calculate_budget_returns [OF default_divisors] by blast
  from aggregation_identity [OF run] run show ?thesis
    by (auto simp: summary_of_def init_def default_parameters_def)
qed

text \<open>
  C6. The claim says that \<open>calculate_budget\<close> returns the placeholder line on the input
  without profile, row, constraint and dimension string. The summary divides by the labour
  rate with no guard: a calculator whose labour rate is 0 raises \<open>ZeroDivisionError\<close> on
  this input and returns no line.
\<close>

theorem fallback_completeness_counterexample:
  "calculate_budget (init (default_parameters\<lparr>labor_rate_eur_hr := 0\<rparr>)) empty_dxf empty_pdf
     ''none'' ''Q'' ''t'' = Inl ZeroDivisionError"
  by (rule calculate_budget_zero_rate) (simp_all add: init_def default_parameters_def)

text \<open>
  C6, amended. When the geometry data has no profile and the specification data has no
  row, no constraint and no dimension string, the correlator produces the placeholder
  alone, and a calculator whose currency factor and labour rate are not zero returns
  exactly one line: the placeholder, with method \<open>placeholder\<close>, confidence 0.1, quantity 1
  and quantity source \<open>estimated\<close>.
\<close>

theorem fallback_completeness:
  assumes "dxf_profiles dxf = []" and "pdf_bom_items pdf = []" and "pdf_constraints pdf = []"
    and "pdf_dimension_specs pdf = []"
    and "eur_to_usd (params self) \<noteq> 0" and "labor_rate_eur_hr (params self) \<noteq> 0"
  shows "fst (correlate_data self dxf pdf) = [placeholder 0 0]
    \<and> (\<exists>r self' l. calculate_budget self dxf pdf st name now = Inr (r, self')
        \<and> r_line_items r = [l] \<and> correlation_method l = ''placeholder''
        \<and> correlation_confidence l = 0.1 \<and> quantity l = 1
        \<and> quantity_source l = ''estimated'')"
proof -
  have "fst (correlate_data self dxf pdf) = [placeholder 0 0]"
    using empty_input_correlations [OF assms(1-4)] by simp
  moreover from empty_input_run [OF assms] obtain r self' l where
    "calculate_budget self dxf pdf st name now = Inr (r, self')" "r_line_items r = [l]"
    "correlation_method l = ''placeholder''" "correlation_confidence l = 0.1"
    "quantity l = 1" "quantity_source l = ''estimated''"
    by blast
  ultimately show ?thesis by blast
qed

theorem fallback_completeness_witness:
  "dxf_profiles empty_dxf = [] \<and> pdf_bom_items empty_pdf = [] \<and> pdf_constraints empty_pdf = []
   \<and> pdf_dimension_specs empty_pdf = []
   \<and> eur_to_usd (params (init default_parameters)) \<noteq> 0
   \<and> labor_rate_eur_hr (params (init default_parameters)) \<noteq> 0
   \<and> map (\<lambda>l. (correlation_method l, correlation_confidence l, quantity l, quantity_source l))
       (lines_of (calculate_budget (init default_parameters) empty_dxf empty_pdf
          ''none'' ''Q'' ''t''))
     = [(''placeholder'', 0.1, 1, ''estimated'')]"
proof -
  have h: "dxf_profiles empty_dxf = []" "pdf_bom_items empty_pdf = []"
    "pdf_constraints empty_pdf = []" "pdf_dimension_specs empty_pdf = []"
    by (simp_all add: empty_dxf_def empty_pdf_def)
  from fallback_completeness [OF h default_divisors, of "''none''" "''Q''" "''t''"]
  show ?thesis
    using h default_divisors by (auto simp: lines_of_def)
qed

text \<open>
  C5. The claim bounds the applied waste percentage from both sides. The source clamps it
  from above only: with a negative base waste percentage the applied percentage is
  negative.
\<close>

theorem waste_clamp_counterexample:
  "map_option waste_percentage_applied
     (summary_of (calculate_budget (init (default_parameters\<lparr>base_waste_factor_pct := - 5\<rparr>))
        empty_dxf empty_pdf ''none'' ''Q'' ''t'')) = Some (- 5)"
proof -
  let ?self = "init (default_parameters\<lparr>base_waste_factor_pct := - 5\<rparr>)"
  have h: "dxf_profiles empty_dxf = []" "pdf_bom_items empty_pdf = []"
    "pdf_constraints empty_pdf = []" "pdf_dimension_specs empty_pdf = []"
    "eur_to_usd (params ?self) \<noteq> 0" "labor_rate_eur_hr (params ?self) \<noteq> 0"
    by (simp_all add: empty_dxf_def empty_pdf_def init_def default_parameters_def)
  from empty_input_run [OF h, of "''none''" "''Q''" "''t''"] obtain r self' l where
    run: "calculate_budget ?self empty_dxf empty_pdf ''none'' ''Q'' ''t'' = Inr (r, self')"
    and l: "r_line_items r = [l]" "complexity_score l = 1"
    by blast
  from calculate_budget_run [OF run] l obtain s where
    s: "calculate_summary (params ?self) [l] ''Q'' ''t''
         (get_default (dxf_success empty_dxf) False \<and> length (dxf_profiles empty_dxf) > 0)
         (get_default (pdf_success empty_pdf) False) = Inr s"
    and r: "r_summary r = Some s"
    by auto
  from s l(2) have "waste_percentage_applied s = - 5"
    by (auto simp: calculate_summary_def Let_def init_def default_parameters_def
        split: sum.splits)
  with run r show ?thesis by (simp add: summary_of_def)
qed

text \<open>
  C5, amended. In the summary of every run that returns, the applied waste percentage is
  the smaller of 20 and the base waste percentage plus (average complexity - 1) times the
  complexity waste percentage, the average complexity of a run without lines being 0; so
  it is at most 20, and it is at least 0 when the two percentages are not negative, the
  run has a line and every line has a complexity score of at least 1.
\<close>

theorem waste_clamp:
  assumes "calculate_budget self dxf pdf st name now = Inr (r, self')"
  shows "\<exists>s. r_summary r = Some s
    \<and> waste_percentage_applied s
        = min (base_waste_factor_pct (params self)
               + (average_complexity s - 1) * complexity_waste_factor_pct (params self)) 20
    \<and> (r_line_items r = [] \<longrightarrow> average_complexity s = 0)
    \<and> waste_percentage_applied s \<le> 20
    \<and> (0 \<le> base_waste_factor_pct (params self)
         \<and> 0 \<le> complexity_waste_factor_pct (params self)
         \<and> r_line_items r \<noteq> []
         \<and> (\<forall>l\<in>set (r_line_items r). 1 \<le> complexity_score l)
        \<longrightarrow> 0 \<le> waste_percentage_applied s)"
proof -
  from calculate_budget_run [OF assms] obtain s where
    s: "calculate_summary (params self) (r_line_items r) name now
         (get_default (dxf_success dxf) False \<and> length (dxf_profiles dxf) > 0)
         (get_default (pdf_success pdf) False) = Inr s"
    and r: "r_summary r = Some s"
    by auto
  from s have w: "waste_percentage_applied s
        = min (base_waste_factor_pct (params self)
               + (average_complexity s - 1) * complexity_waste_factor_pct (params self)) 20"
    and avg: "r_line_items r \<noteq> [] \<Longrightarrow> average_complexity s
        = (\<Sum>l\<leftarrow>r_line_items r. complexity_score l) / real (length (r_line_items r))"
    and none: "r_line_items r = [] \<longrightarrow> average_complexity s = 0"
    by (auto simp: calculate_summary_def Let_def split: sum.splits)
  have "0 \<le> waste_percentage_applied s"
    if b: "0 \<le> base_waste_factor_pct (params self)"
      and c: "0 \<le> complexity_waste_factor_pct (params self)"
      and ne: "r_line_items r \<noteq> []"
      and all: "\<forall>l\<in>set (r_line_items r). 1 \<le> complexity_score l"
  proof -
    have "real (length (r_line_items r)) \<le> (\<Sum>l\<leftarrow>r_line_items r. complexity_score l)"
      by (rule sum_list_ge_length [OF all])
    moreover have "0 < real (length (r_line_items r))" using ne by simp
    ultimately have "1 \<le> average_complexity s"
      unfolding avg [OF ne] by (simp add: le_divide_eq)
    then have "0 \<le> (average_complexity s - 1) * complexity_waste_factor_pct (params self)"
      using c by simp
    with b w show ?thesis by simp
  qed
  with r w none show ?thesis by auto
qed

theorem waste_clamp_witness:
  "map_option (\<lambda>s. 0 \<le> waste_percentage_applied s \<and> waste_percentage_applied s \<le> 20)
     (summary_of (calculate_budget (init default_parameters) empty_dxf empty_pdf
        ''none'' ''Q'' ''t'')) = Some True"
proof -
  have h: "dxf_profiles empty_dxf = []" "pdf_bom_items empty_pdf = []"
    "pdf_constraints empty_pdf = []" "pdf_dimension_specs empty_pdf = []"
    by (simp_all add: empty_dxf_def empty_pdf_def)
  from empty_input_run [OF h default_divisors, of "''none''" "''Q''" "''t''"]
  obtain r self' l where
    run: "calculate_budget (init default_parameters) empty_dxf empty_pdf ''none'' ''Q'' ''t''
      = Inr (r, self')"
    and l: "r_line_items r = [l]" "complexity_score l = 1"
    by blast
  from waste_clamp [OF run] l show ?thesis
    using run by (auto simp: summary_of_def init_def default_parameters_def)
qed




text \<open>
  C10. Of two successive calls on one calculator that both return, the second returns the
  line items of its own run alone (those a fresh calculator with the same parameters
  returns), while its correlation log is the log that the first call returned, itself the
  log the calculator had before plus one entry, with one more entry at its end.
\<close>

theorem successive_runs:
  assumes "calculate_budget self0 dxf1 pdf1 st1 name1 now1 = Inr (r1, self1)"
    and "calculate_budget self1 dxf2 pdf2 st2 name2 now2 = Inr (r2, self2)"
  shows "(\<exists>r self'. calculate_budget (init (params self0)) dxf2 pdf2 st2 name2 now2
            = Inr (r, self') \<and> r_line_items r2 = r_line_items r)
    \<and> (\<exists>e1 e2. r_correlation_log r1 = correlation_log self0 @ [e1]
          \<and> r_correlation_log r2 = r_correlation_log r1 @ [e2])"
proof -
  from calculate_budget_run [OF assms(1)] obtain items1 s1 where
    log1: "r_correlation_log r1 = correlation_log (snd (correlate_data self0 dxf1 pdf1))"
    and self1: "self1 = (snd (correlate_data self0 dxf1 pdf1))
        \<lparr>line_items := items1, summary := Some s1\<rparr>"
    by blast
  have p1: "params self1 = params self0"
    using self1 correlate_data_params [of self0 dxf1 pdf1] by simp
  have l1: "correlation_log self1 = r_correlation_log r1"
    using self1 log1 by simp
  from calculate_budget_run [OF assms(2)] obtain s2 where
    pl: "price_lines (params self1) st2 0 [] (fst (correlate_data self1 dxf2 pdf2))
        = Inr (r_line_items r2)"
    and su: "calculate_summary (params self1) (r_line_items r2) name2 now2
         (get_default (dxf_success dxf2) False \<and> length (dxf_profiles dxf2) > 0)
         (get_default (pdf_success pdf2) False) = Inr s2"
    and log2: "r_correlation_log r2 = correlation_log (snd (correlate_data self1 dxf2 pdf2))"
    by auto
  let ?fresh = "init (params self0)"
  have pf: "params ?fresh = params self1"
    using p1 by (simp add: init_def)
  have "price_lines (params ?fresh) st2 0 [] (fst (correlate_data ?fresh dxf2 pdf2))
        = Inr (r_line_items r2)"
    using pl pf correlate_data_fst_indep [of ?fresh dxf2 pdf2 self1] by simp
  moreover have "calculate_summary (params ?fresh) (r_line_items r2) name2 now2
         (get_default (dxf_success dxf2) False \<and> length (dxf_profiles dxf2) > 0)
         (get_default (pdf_success pdf2) False) = Inr s2"
    using su pf by simp
  ultimately have a: "\<exists>r self'. calculate_budget ?fresh dxf2 pdf2 st2 name2 now2
      = Inr (r, self') \<and> r_line_items r2 = r_line_items r"
    using calculate_budget_intro by fastforce
  obtain e1 where e1: "r_correlation_log r1 = correlation_log self0 @ [e1]"
    using correlate_data_log [of self0 dxf1 pdf1] log1 by auto
  obtain e2 where e2: "r_correlation_log r2 = r_correlation_log r1 @ [e2]"
    using correlate_data_log [of self1 dxf2 pdf2] log2 l1 by auto
  from a e1 e2 show ?thesis by blast
qed

theorem successive_runs_witness:
  "log_of (calculate_budget (init default_parameters) example_dxf empty_pdf ''none'' ''Q'' ''t'')
     = [UsingDxfAsPrimary 1 0]
   \<and> log_of (run_again
        (calculate_budget (init default_parameters) example_dxf empty_pdf ''none'' ''Q'' ''t'')
        (\<lambda>self. calculate_budget self empty_dxf empty_pdf ''none'' ''R'' ''u''))
     = [UsingDxfAsPrimary 1 0, CreatingFallbackItems]
   \<and> lines_of (run_again
        (calculate_budget (init default_parameters) example_dxf empty_pdf ''none'' ''Q'' ''t'')
        (\<lambda>self. calculate_budget self empty_dxf empty_pdf ''none'' ''R'' ''u''))
     = lines_of (calculate_budget (init default_parameters) empty_dxf empty_pdf
         ''none'' ''R'' ''u'')
   \<and> length (lines_of (calculate_budget (init default_parameters) empty_dxf empty_pdf
         ''none'' ''R'' ''u'')) = 1"
proof -
  obtain r1 self1 where run1: "calculate_budget (init default_parameters) example_dxf empty_pdf
      ''none'' ''Q'' ''t'' = Inr (r1, self1)"
    using calculate_budget_returns [OF default_divisors] by blast
  from calculate_budget_run [OF run1] obtain items1 s1 where
    log1: "r_correlation_log r1 = [UsingDxfAsPrimary 1 0]"
    and self1: "self1 = (snd (correlate_data (init default_parameters) example_dxf empty_pdf))
        \<lparr>line_items := items1, summary := Some s1\<rparr>"
    by (auto simp: example_correlation log_append_def init_def)
  have d1: "eur_to_usd (params self1) \<noteq> 0" "labor_rate_eur_hr (params self1) \<noteq> 0"
    using self1 default_divisors by (simp_all add: example_correlation)
  have h: "dxf_profiles empty_dxf = []" "pdf_bom_items empty_pdf = []"
    "pdf_constraints empty_pdf = []" "pdf_dimension_specs empty_pdf = []"
    by (simp_all add: empty_dxf_def empty_pdf_def)
  obtain r2 self2 where run2: "calculate_budget self1 empty_dxf empty_pdf
      ''none'' ''R'' ''u'' = Inr (r2, self2)"
    using calculate_budget_returns [OF d1] by blast
  from successive_runs [OF run1 run2] obtain r self' e1 e2 where
    fresh: "calculate_budget (init (params (init default_parameters))) empty_dxf empty_pdf
        ''none'' ''R'' ''u'' = Inr (r, self')"
    and same: "r_line_items r2 = r_line_items r"
    and l2: "r_correlation_log r2 = r_correlation_log r1 @ [e2]"
    by blast
  have e2: "e2 = CreatingFallbackItems"
    using calculate_budget_run [OF run2] l2 empty_input_correlations [OF h, of self1]
    by (auto simp: log_append_def self1 example_correlation)
  have fr: "init (params (init default_parameters)) = init default_parameters"
    by (simp add: init_def)
  have one: "length (r_line_items r) = 1"
    using empty_input_run [OF h default_divisors, of "''none''" "''R''" "''u''"] fresh fr
    by auto
  show ?thesis
    using run1 run2 fresh fr same log1 l2 e2 one
    by (simp add: log_of_def lines_of_def run_again_def)
qed

text \<open>
  C8. The claim gives the weight of a line without weight and with a known area as
  perimeter \<open>\<times>\<close> thickness \<open>\<times>\<close> length \<open>/ 10\<^sup>9 \<times>\<close> density. The code takes the larger of the
  length and 1000 mm: a line of perimeter 400, no thickness and length 500 gets the
  weight 2.16, where the claim's product is 1.08.
\<close>

theorem formula_weight_counterexample:
  "try_calculate_from_cost_db short_line = None
   \<and> weight_kg short_line \<le> 0 \<and> area_mm2 short_line > 0 \<and> thickness_mm short_line = None
   \<and> weight_of (calculate_line_costs default_parameters short_line ''none'') = Some (54 / 25)
   \<and> perimeter_mm short_line * 2 * length_mm short_line / 1000000000 * ALUMINUM_DENSITY_KG_M3
       = 27 / 25"
proof -
  have "calculate_line_costs default_parameters short_line ''none''
      = Inr (formula_costs default_parameters
          ((lme_price_usd_kg default_parameters
              * (1 + lme_hedging_buffer_pct default_parameters / 100)
            + billet_premium_usd_kg default_parameters) / eur_to_usd default_parameters)
          short_line ''none'')"
    by (simp add: calculate_line_costs_def short_line_no_catalogue py_div_def Let_def
        default_parameters_def)
  moreover have "weight_kg (formula_costs default_parameters m short_line ''none'') = 54 / 25"
    for m
    by (simp add: formula_costs_def weight_if_not_provided_def thickness_or_default_def
        short_line_def example_line_def ALUMINUM_DENSITY_KG_M3_def Let_def)
  ultimately show ?thesis
    by (simp add: weight_of_def short_line_no_catalogue)
      (simp add: short_line_def example_line_def ALUMINUM_DENSITY_KG_M3_def)
qed

text \<open>
  C8, amended. On the formula path, which a line that the catalogue misses takes and which
  returns when the currency factor is not 0, a weight above 0 is kept. Otherwise, with
  the thickness 2 mm when the line has none or has the thickness 0 and the density 2700:
  when the area is above 0 the weight is perimeter \<open>\<times>\<close> thickness \<open>\<times>\<close> max(length, 1000)
  \<open>/ 10\<^sup>9 \<times>\<close> density; else when the perimeter is above 0 it is perimeter \<open>\<times>\<close> thickness\<open>\<^sup>2\<close>
  \<open>/ 10\<^sup>9 \<times>\<close> density; else when the length is above 0 it is 0.5 kg per metre of length,
  and the perimeter becomes a tenth of the length; else it is 0.5 kg, with the length
  1000 mm and the perimeter 100 mm.
\<close>

theorem formula_weight:
  assumes "try_calculate_from_cost_db line = None" and "eur_to_usd p \<noteq> 0"
  shows "\<exists>priced. calculate_line_costs p line st = Inr priced
    \<and> thickness_or_default line
        = (case thickness_mm line of None \<Rightarrow> 2 | Some t \<Rightarrow> if t = 0 then 2 else t)
    \<and> weight_kg priced =
        (if 0 < weight_kg line then weight_kg line
         else if 0 < area_mm2 line then
           perimeter_mm line * thickness_or_default line * max (length_mm line) 1000
             / 1000000000 * 2700
         else if 0 < perimeter_mm line then
           perimeter_mm line * thickness_or_default line * thickness_or_default line
             / 1000000000 * 2700
         else if 0 < length_mm line then length_mm line / 1000 * 0.5
         else 0.5)
    \<and> perimeter_mm priced =
        (if 0 < weight_kg line \<or> 0 < area_mm2 line \<or> 0 < perimeter_mm line
         then perimeter_mm line
         else if 0 < length_mm line then length_mm line * 0.1 else 100)
    \<and> length_mm priced =
        (if 0 < weight_kg line \<or> 0 < area_mm2 line \<or> 0 < perimeter_mm line
            \<or> 0 < length_mm line
         then length_mm line else 1000)"
proof -
  define m where "m = (lme_price_usd_kg p * (1 + lme_hedging_buffer_pct p / 100)
      + billet_premium_usd_kg p) / eur_to_usd p"
  have run: "calculate_line_costs p line st = Inr (formula_costs p m line st)"
    using assms by (simp add: calculate_line_costs_def py_div_def Let_def m_def)
  have t: "thickness_or_default line
        = (case thickness_mm line of None \<Rightarrow> 2 | Some t \<Rightarrow> if t = 0 then 2 else t)"
    by (simp add: thickness_or_default_def or_real_def split: option.splits)
  have w: "weight_kg (formula_costs p m line st) = weight_kg (weight_if_not_provided line)"
    and pm: "perimeter_mm (formula_costs p m line st)
        = perimeter_mm (weight_if_not_provided line)"
    and l: "length_mm (formula_costs p m line st) = length_mm (weight_if_not_provided line)"
    by (simp_all add: formula_costs_def Let_def)
  have "weight_kg (weight_if_not_provided line) =
        (if 0 < weight_kg line then weight_kg line
         else if 0 < area_mm2 line then
           perimeter_mm line * thickness_or_default line * max (length_mm line) 1000
             / 1000000000 * 2700
         else if 0 < perimeter_mm line then
           perimeter_mm line * thickness_or_default line * thickness_or_default line
             / 1000000000 * 2700
         else if 0 < length_mm line then length_mm line / 1000 * 0.5
         else 0.5)"
    by (simp add: weight_if_not_provided_def ALUMINUM_DENSITY_KG_M3_def Let_def not_less)
  moreover have "perimeter_mm (weight_if_not_provided line) =
        (if 0 < weight_kg line \<or> 0 < area_mm2 line \<or> 0 < perimeter_mm line
         then perimeter_mm line
         else if 0 < length_mm line then length_mm line * 0.1 else 100)"
    by (auto simp: weight_if_not_provided_def Let_def)
  moreover have "length_mm (weight_if_not_provided line) =
        (if 0 < weight_kg line \<or> 0 < area_mm2 line \<or> 0 < perimeter_mm line
            \<or> 0 < length_mm line
         then length_mm line else 1000)"
    by (auto simp: weight_if_not_provided_def Let_def)
  ultimately show ?thesis
    using run t w pm l by simp
qed

theorem formula_weight_witness:
  "try_calculate_from_cost_db short_line = None \<and> eur_to_usd default_parameters \<noteq> 0
   \<and> weight_of (calculate_line_costs default_parameters short_line ''none'')
       = Some (400 * 2 * 1000 / 1000000000 * 2700)"
proof -
  have d: "eur_to_usd default_parameters \<noteq> 0"
    by (simp add: default_parameters_def)
  have f: "weight_kg short_line = 0" "area_mm2 short_line = 100" "perimeter_mm short_line = 400"
    "length_mm short_line = 500" "thickness_mm short_line = None"
    by (simp_all add: short_line_def example_line_def)
  from formula_weight [OF short_line_no_catalogue d, of "''none''"] f
  obtain priced where "calculate_line_costs default_parameters short_line ''none'' = Inr priced"
    and "weight_kg priced = 400 * 2 * 1000 / 1000000000 * 2700"
    by auto
  then show ?thesis
    using d short_line_no_catalogue by (simp add: weight_of_def)
qed




end
